theory Spec2Isabelle
  imports Main "HOL-Library.Monad_Syntax"
begin

section \<open>JavaScript values\<close>

text \<open>
  The dashboard handles data typed \<open>any\<close>: webhook payloads, the user object read back
  from local storage, response bodies. Such a value is a JSON value, or \<open>undefined\<close>
  when a property is missing. The code never computes with numbers taken from JSON (it
  only tests them for truthiness, compares them and prints them), so a number is an
  integer here, printed in decimal. An object is the list of its own properties; a
  string is the list of its code units.
\<close>

datatype jsval =
    Undefined
  | Null
  | JBool bool
  | JNum int
  | JStr string
  | JArr "jsval list"
  | JObj "(string \<times> jsval) list"

text \<open>JavaScript truthiness: \<open>undefined\<close>, \<open>null\<close>, \<open>false\<close>, \<open>0\<close> and the empty
  string are falsy, every array and every object is truthy.\<close>

fun truthy :: "jsval \<Rightarrow> bool" where
  "truthy Undefined = False"
| "truthy Null = False"
| "truthy (JBool b) = b"
| "truthy (JNum n) = (n \<noteq> 0)"
| "truthy (JStr s) = (s \<noteq> [])"
| "truthy (JArr xs) = True"
| "truthy (JObj kvs) = True"

definition nullish :: "jsval \<Rightarrow> bool" where
  "nullish v = (v = Undefined \<or> v = Null)"

function dec :: "nat \<Rightarrow> string" where
  "dec n = (if n < 10 then [''0123456789'' ! n]
            else dec (n div 10) @ [''0123456789'' ! (n mod 10)])"
  by pat_completeness auto
termination
  by (relation "measure id") auto

declare dec.simps [simp del]

text \<open>Property access \<open>v.k\<close>: a TypeError (\<open>None\<close>) on \<open>undefined\<close> and \<open>null\<close>,
  otherwise the own property, or \<open>undefined\<close>. Arrays and strings have \<open>length\<close>.\<close>

fun get :: "jsval \<Rightarrow> string \<Rightarrow> jsval option" where
  "get Undefined k = None"
| "get Null k = None"
| "get (JObj kvs) k = Some (case map_of kvs k of None \<Rightarrow> Undefined | Some v \<Rightarrow> v)"
| "get (JArr xs) k = Some (if k = ''length'' then JNum (int (length xs)) else Undefined)"
| "get (JStr s) k = Some (if k = ''length'' then JNum (int (length s)) else Undefined)"
| "get (JBool b) k = Some Undefined"
| "get (JNum n) k = Some Undefined"

text \<open>Indexed access \<open>v[i]\<close>.\<close>

fun idx :: "jsval \<Rightarrow> nat \<Rightarrow> jsval option" where
  "idx Undefined i = None"
| "idx Null i = None"
| "idx (JArr xs) i = Some (if i < length xs then xs ! i else Undefined)"
| "idx (JStr s) i = Some (if i < length s then JStr [s ! i] else Undefined)"
| "idx (JObj kvs) i = Some (case map_of kvs (dec i) of None \<Rightarrow> Undefined | Some v \<Rightarrow> v)"
| "idx (JBool b) i = Some Undefined"
| "idx (JNum n) i = Some Undefined"

text \<open>Optional chaining \<open>v?.k\<close> and \<open>v?.[i]\<close>: \<open>undefined\<close> instead of the TypeError.\<close>

definition chain :: "jsval \<Rightarrow> string \<Rightarrow> jsval" where
  "chain v k = (case get v k of None \<Rightarrow> Undefined | Some x \<Rightarrow> x)"

definition chain_idx :: "jsval \<Rightarrow> nat \<Rightarrow> jsval" where
  "chain_idx v i = (case idx v i of None \<Rightarrow> Undefined | Some x \<Rightarrow> x)"

fun join :: "string list \<Rightarrow> string" where
  "join [] = []"
| "join [x] = x"
| "join (x # y # ys) = x @ '','' @ join (y # ys)"

text \<open>String conversion, as a template literal does it. An object that has an own
  property \<open>toString\<close> (never callable in JSON data) cannot be converted: TypeError.\<close>

fun ToString :: "jsval \<Rightarrow> string option" where
  "ToString Undefined = Some ''undefined''"
| "ToString Null = Some ''null''"
| "ToString (JBool b) = Some (if b then ''true'' else ''false'')"
| "ToString (JNum n) = Some (if n < 0 then CHR ''-'' # dec (nat (- n)) else dec (nat n))"
| "ToString (JStr s) = Some s"
| "ToString (JArr xs) =
     map_option join (those (map (\<lambda>x. if x = Undefined \<or> x = Null then Some [] else ToString x) xs))"
| "ToString (JObj kvs) =
     (if map_of kvs ''toString'' = None then Some ''[object Object]'' else None)"

section \<open>The staff conversation viewer: getMessageText\<close>

text \<open>The fields \<open>id\<close> and \<open>text\<close> of the source are \<open>msg_id\<close> and \<open>msg_text\<close> here.\<close>

record message =
  msg_id :: string
  direction :: string
  message_type :: string
  msg_text :: "string option"
  media :: jsval
  raw_payload :: jsval
  created_at :: string

text \<open>The body of the \<open>try\<close> block. \<open>None\<close>: an exception was thrown;
  \<open>Some None\<close>: the block ended without a \<open>return\<close>; \<open>Some (Some v)\<close>: it returned \<open>v\<close>.\<close>

definition getMessageText_try :: "jsval \<Rightarrow> jsval option option" where
  "getMessageText_try raw = do {
     entry \<leftarrow> get raw ''entry'';
     let messaging = chain_idx (chain (chain_idx entry 0) ''messaging'') 0;
     let m = chain messaging ''message'';
     if truthy (chain m ''text'') then do {
       t \<leftarrow> get m ''text'';
       Some (Some t)
     } else if truthy (chain (chain m ''reply_to'') ''story'') then
       Some (Some (JStr ''[Resposta a story]''))
     else if truthy (chain (chain m ''attachments'') ''length'') then do {
       atts \<leftarrow> get m ''attachments'';
       a0 \<leftarrow> idx atts 0;
       ty \<leftarrow> get a0 ''type'';
       s \<leftarrow> ToString (if truthy ty then ty else JStr ''attachment'');
       Some (Some (JStr (''['' @ s @ '']'')))
     } else if truthy (chain messaging ''postback'') then do {
       pb \<leftarrow> get messaging ''postback'';
       title \<leftarrow> get pb ''title'';
       Some (Some (if truthy title then title else JStr ''[postback]''))
     } else Some None
   }"

definition getMessageText :: "message \<Rightarrow> jsval" where
  "getMessageText msg =
     (case msg_text msg of
        Some s \<Rightarrow> if s \<noteq> [] then JStr s else
          (if \<not> truthy (raw_payload msg) then Null
           else case getMessageText_try (raw_payload msg) of
                  Some (Some v) \<Rightarrow> v | _ \<Rightarrow> Null)
      | None \<Rightarrow>
          (if \<not> truthy (raw_payload msg) then Null
           else case getMessageText_try (raw_payload msg) of
                  Some (Some v) \<Rightarrow> v | _ \<Rightarrow> Null))"

text \<open>The description of the display text in words, free of exceptions: the first
  messaging entry of the Meta webhook envelope \<open>raw.entry[0].messaging[0]\<close>, its message
  text, the story-reply literal, the bracketed type of the first attachment, the postback
  title.\<close>

definition no_text :: "message \<Rightarrow> bool" where
  "no_text msg = (msg_text msg = None \<or> msg_text msg = Some [])"

definition first_messaging :: "jsval \<Rightarrow> jsval" where
  "first_messaging raw = chain_idx (chain (chain_idx (chain raw ''entry'') 0) ''messaging'') 0"

definition first_attachment_type :: "jsval \<Rightarrow> jsval option" where
  "first_attachment_type m = do { a0 \<leftarrow> idx (chain m ''attachments'') 0; get a0 ''type'' }"

definition payload_display :: "jsval \<Rightarrow> jsval" where
  "payload_display raw =
    (let messaging = first_messaging raw; m = chain messaging ''message'' in
     if truthy (chain m ''text'') then chain m ''text''
     else if truthy (chain (chain m ''reply_to'') ''story'') then JStr ''[Resposta a story]''
     else if truthy (chain (chain m ''attachments'') ''length'') then
       (case first_attachment_type m of
          None \<Rightarrow> Null
        | Some ty \<Rightarrow>
           (case ToString (if truthy ty then ty else JStr ''attachment'') of
              None \<Rightarrow> Null
            | Some s \<Rightarrow> JStr (''['' @ s @ '']'')))
     else if truthy (chain messaging ''postback'') then
       (if truthy (chain (chain messaging ''postback'') ''title'')
        then chain (chain messaging ''postback'') ''title'' else JStr ''[postback]'')
     else Null)"

definition webhook :: "jsval \<Rightarrow> jsval" where
  "webhook messaging = JObj [(''entry'', JArr [JObj [(''messaging'', JArr [messaging])]])]"

definition incoming :: "string option \<Rightarrow> jsval \<Rightarrow> message" where
  "incoming t raw = \<lparr>msg_id = ''m1'', direction = ''in'', message_type = ''text'',
     msg_text = t, media = Null, raw_payload = raw, created_at = ''2026-01-01T00:00:00Z''\<rparr>"

section \<open>The browser and the platform\<close>

text \<open>
  \<open>localStorage\<close> maps keys to strings; \<open>window.location.href\<close> is the address the
  browser shows. \<open>JSON.parse\<close> and \<open>JSON.stringify\<close> belong to the platform, not to the
  repository: they are parameters (\<open>JSON_parse s = None\<close> when parsing \<open>s\<close> throws), and so
  are the base URL of the API, which comes from the environment of the deployment, and
  the message the engine gives its TypeError.
\<close>

type_synonym storage = "string \<rightharpoonup> string"

record browser =
  localStorage :: storage
  href :: string

record platform =
  JSON_parse :: "string \<Rightarrow> jsval option"
  JSON_stringify :: "jsval \<Rightarrow> string"
  baseURL :: string
  TypeError_message :: string

text \<open>\<open>localStorage.getItem\<close> returns the string or \<open>null\<close>.\<close>

definition getItem :: "storage \<Rightarrow> string \<Rightarrow> jsval" where
  "getItem st k = (case st k of None \<Rightarrow> Null | Some s \<Rightarrow> JStr s)"

section \<open>lib/api: the shared axios client\<close>

text \<open>A request as it leaves the browser. The body is kept as a value (the client
  serialises it as JSON); \<open>Undefined\<close> stands for no body.\<close>

record request =
  req_method :: string
  req_url :: string
  req_params :: "(string \<times> jsval) list"
  req_headers :: "string \<rightharpoonup> string"
  req_body :: jsval

record axios_response =
  resp_status :: int
  resp_data :: jsval

text \<open>An axios error carries the response when the server answered (with a status
  outside 2xx) and none when the request never got an answer.\<close>

record axios_error =
  err_response :: "axios_response option"

text \<open>The request interceptor: \<open>Authorization: Bearer token\<close> when a token is stored.\<close>

definition request_interceptor :: "storage \<Rightarrow> request \<Rightarrow> request" where
  "request_interceptor st config =
     (case st ''token'' of
        None \<Rightarrow> config
      | Some token \<Rightarrow>
          if token \<noteq> [] then
            config\<lparr>req_headers := (req_headers config)(''Authorization'' \<mapsto> ''Bearer '' @ token)\<rparr>
          else config)"

text \<open>The response interceptor, the same in both versions of the client: the first
  handler returns the response, the second handles a rejected request.\<close>

definition response_interceptor ::
  "browser \<Rightarrow> axios_error + axios_response \<Rightarrow> browser \<times> (axios_error + axios_response)" where
  "response_interceptor b outcome =
     (case outcome of
        Inr response \<Rightarrow> (b, Inr response)
      | Inl error \<Rightarrow>
          ((if (case err_response error of None \<Rightarrow> False | Some r \<Rightarrow> resp_status r = 401)
            then b\<lparr>localStorage := (localStorage b)(''token'' := None), href := ''/login''\<rparr>
            else b),
           Inl error))"

text \<open>\<open>api.get\<close>, \<open>api.post\<close>, \<open>api.patch\<close>: the instance's default header, the base
  URL and the request interceptor.\<close>

definition api_call ::
  "platform \<Rightarrow> storage \<Rightarrow> string \<Rightarrow> string \<Rightarrow> (string \<times> jsval) list \<Rightarrow> jsval \<Rightarrow> request" where
  "api_call env st m path ps payload =
     request_interceptor st
       \<lparr>req_method = m, req_url = baseURL env @ path, req_params = ps,
        req_headers = [''Content-Type'' \<mapsto> ''application/json''], req_body = payload\<rparr>"

definition api_get :: "platform \<Rightarrow> storage \<Rightarrow> string \<Rightarrow> (string \<times> jsval) list \<Rightarrow> request" where
  "api_get env st path ps = api_call env st ''GET'' path ps Undefined"

definition api_post :: "platform \<Rightarrow> storage \<Rightarrow> string \<Rightarrow> jsval \<Rightarrow> request" where
  "api_post env st path payload = api_call env st ''POST'' path [] payload"

definition api_patch :: "platform \<Rightarrow> storage \<Rightarrow> string \<Rightarrow> jsval \<Rightarrow> request" where
  "api_patch env st path payload = api_call env st ''PATCH'' path [] payload"

section \<open>Tenant resolution on the dashboard pages\<close>

text \<open>
  Every dashboard page starts with the same lines:
  \<^verbatim>\<open>const user = JSON.parse(userData);\<close>
  \<^verbatim>\<open>const tenantId = user.role === 'admin' ? localStorage.getItem('active_tenant_id') : user.client_id;\<close>
  \<open>None\<close> is the TypeError of reading a property of \<open>null\<close>.
\<close>

definition tenant_of_user :: "storage \<Rightarrow> jsval \<Rightarrow> jsval option" where
  "tenant_of_user st user = do {
     role \<leftarrow> get user ''role'';
     if role = JStr ''admin'' then Some (getItem st ''active_tenant_id'')
     else get user ''client_id''
   }"

text \<open>The tenant a page resolves from local storage; \<open>None\<close> when there is no user
  data or when parsing or reading it throws.\<close>

definition page_tenant :: "platform \<Rightarrow> storage \<Rightarrow> jsval option" where
  "page_tenant env st =
     (case st ''user'' of
        None \<Rightarrow> None
      | Some userData \<Rightarrow>
          if userData = [] then None
          else do { user \<leftarrow> JSON_parse env userData; tenant_of_user st user })"

text \<open>What an effect hook or a handler does to the outside: it pushes a route, sends
  a request, or registers a timer with \<open>setInterval\<close> whose callback sends a request every
  so many milliseconds. There is no other channel to the server in the sources.\<close>

datatype page_effect = Navigate string | Request request | SetInterval nat request

subsection \<open>The conversation list page\<close>

definition loadConversations_request :: "platform \<Rightarrow> storage \<Rightarrow> jsval \<Rightarrow> request" where
  "loadConversations_request env st tenantId =
     api_get env st ''/api/conversations/'' [(''project_id'', tenantId)]"

text \<open>The effect that runs once when the list page mounts (its dependency list is
  empty). \<open>None\<close>: the effect threw.\<close>

definition ConversationsPage_effect :: "platform \<Rightarrow> storage \<Rightarrow> page_effect list option" where
  "ConversationsPage_effect env st =
     (case st ''user'' of
        None \<Rightarrow> Some []
      | Some userData \<Rightarrow>
          if userData = [] then Some []
          else do {
            user \<leftarrow> JSON_parse env userData;
            tenantId \<leftarrow> tenant_of_user st user;
            Some (if truthy tenantId then [Request (loadConversations_request env st tenantId)]
                  else [])
          })"

subsection \<open>The Meta configuration page\<close>

text \<open>\<open>loadCurrentConfig(id)\<close> builds its path inside a \<open>try\<close> block: when the
  identifier has no string form nothing is requested.\<close>

definition loadCurrentConfig_request :: "platform \<Rightarrow> storage \<Rightarrow> jsval \<Rightarrow> request option" where
  "loadCurrentConfig_request env st ident =
     map_option (\<lambda>s. api_get env st (''/api/config/meta/'' @ s) []) (ToString ident)"

definition MetaConfigPage_effect :: "platform \<Rightarrow> storage \<Rightarrow> page_effect list option" where
  "MetaConfigPage_effect env st =
     (case st ''user'' of
        None \<Rightarrow> Some [Navigate ''/login'']
      | Some userData \<Rightarrow>
          if userData = [] then Some [Navigate ''/login'']
          else do {
            parsedUser \<leftarrow> JSON_parse env userData;
            tId \<leftarrow> tenant_of_user st parsedUser;
            role \<leftarrow> get parsedUser ''role'';
            Some (if \<not> truthy tId
                  then [Navigate (if role = JStr ''admin'' then ''/admin'' else ''/login'')]
                  else (case loadCurrentConfig_request env st tId of
                          None \<Rightarrow> [] | Some r \<Rightarrow> [Request r]))
          })"

subsection \<open>The dashboard layout\<close>

definition DashLayout_effect :: "platform \<Rightarrow> storage \<Rightarrow> (bool \<times> page_effect list) option" where
  "DashLayout_effect env st =
     (case st ''user'' of
        None \<Rightarrow> Some (False, [Navigate ''/login''])
      | Some userData \<Rightarrow>
          if userData = [] then Some (False, [Navigate ''/login''])
          else do {
            user \<leftarrow> JSON_parse env userData;
            tenantId \<leftarrow> tenant_of_user st user;
            role \<leftarrow> get user ''role'';
            Some (if \<not> truthy tenantId
                  then (False, [Navigate (if role = JStr ''admin'' then ''/admin'' else ''/login'')])
                  else (True, []))
          })"

subsection \<open>The conversation viewer: useConversation\<close>

text \<open>\<open>fetchConversation\<close> takes the project and the conversation from the route
  \<open>/dash/conversations/[project_id]/[conversation_id]\<close>; it reads no tenant from storage.\<close>

definition fetchConversation_request :: "platform \<Rightarrow> storage \<Rightarrow> string \<Rightarrow> string \<Rightarrow> request" where
  "fetchConversation_request env st projectId conversationId =
     api_get env st (''/api/conversations/'' @ projectId @ ''/'' @ conversationId) []"

section \<open>Login and the admin page\<close>

text \<open>
  \<open>handleLogin\<close> after a successful \<open>POST /api/auth/login\<close> answering
  \<open>{access_token, user}\<close>. The result is the storage and the route pushed; no route when
  a \<open>setItem\<close> threw (a value without string form) and the \<open>catch\<close> block ran, which keeps
  what was stored before.
\<close>

definition handleLogin_success ::
  "platform \<Rightarrow> string \<Rightarrow> jsval \<Rightarrow> storage \<Rightarrow> storage \<times> string option" where
  "handleLogin_success env access_token user st =
     (let st1 = st(''token'' \<mapsto> access_token);
          st2 = st1(''user'' \<mapsto> JSON_stringify env user);
          route = (if chain user ''role'' = JStr ''admin'' then ''/admin'' else ''/dash'')
      in if chain user ''role'' = JStr ''client'' \<and> truthy (chain user ''client_id'') then
           (case ToString (chain user ''client_id'') of
              None \<Rightarrow> (st2, None)
            | Some cid \<Rightarrow>
                let st3 = st2(''active_tenant_id'' \<mapsto> cid) in
                (case ToString (if truthy (chain user ''client_name'')
                                then chain user ''client_name'' else JStr []) of
                   None \<Rightarrow> (st3, None)
                 | Some name \<Rightarrow> (st3(''active_tenant_name'' \<mapsto> name), Some route)))
         else (st2, Some route))"

text \<open>
  The whole handler, given the outcome of \<open>POST /api/auth/login\<close>. The outcome passes the
  response interceptor of the client first, so a login rejected with status 401 removes a
  stored \<open>token\<close>. \<open>const { access_token, user } = response.data\<close> throws on a body that
  is \<open>null\<close> or missing, and \<open>setItem\<close> on a token without string form; either ends in
  the \<open>catch\<close> block with nothing stored by the handler.
\<close>

definition handleLogin ::
  "platform \<Rightarrow> axios_error + axios_response \<Rightarrow> browser \<Rightarrow> browser \<times> string option" where
  "handleLogin env outcome b =
     (let answered = response_interceptor b outcome; b1 = fst answered in
      case snd answered of
        Inl err \<Rightarrow> (b1, None)
      | Inr response \<Rightarrow>
          (case get (resp_data response) ''access_token'' \<bind> ToString of
             None \<Rightarrow> (b1, None)
           | Some access_token \<Rightarrow>
               let r = handleLogin_success env access_token (chain (resp_data response) ''user'')
                         (localStorage b1)
               in (b1\<lparr>localStorage := fst r\<rparr>, snd r)))"

text \<open>The admin page's \<open>Client\<close>, with the two fields \<open>id\<close> and \<open>name\<close> that
  \<open>handleOpenDashboard\<close> reads.\<close>

record client =
  client_id :: string
  client_name :: string

definition handleOpenDashboard :: "client \<Rightarrow> storage \<Rightarrow> storage \<times> string" where
  "handleOpenDashboard c st =
     (st(''active_tenant_id'' \<mapsto> client_id c, ''active_tenant_name'' \<mapsto> client_name c), ''/dash'')"

section \<open>The i18n provider\<close>

text \<open>
  \<open>resolveTenantId\<close> wraps the page pattern in \<open>try\<close>/\<open>catch\<close>: without user data, and
  whenever parsing or reading it throws, it returns the stored \<open>active_tenant_id\<close>.
\<close>

definition resolveTenantId :: "platform \<Rightarrow> storage \<Rightarrow> jsval" where
  "resolveTenantId env st =
     (case st ''user'' of
        None \<Rightarrow> getItem st ''active_tenant_id''
      | Some userData \<Rightarrow>
          if userData = [] then getItem st ''active_tenant_id''
          else (case JSON_parse env userData \<bind> tenant_of_user st of
                  None \<Rightarrow> getItem st ''active_tenant_id''
                | Some t \<Rightarrow> t))"

text \<open>\<^verbatim>\<open>const savedKey = tenantId ? `locale:${tenantId}` : 'locale';\<close>\<close>

definition savedKey :: "jsval \<Rightarrow> string option" where
  "savedKey tenantId =
     (if truthy tenantId then map_option (\<lambda>s. ''locale:'' @ s) (ToString tenantId)
      else Some ''locale'')"

text \<open>
  The translations table is not part of the sources at hand: \<open>valid l\<close> says that
  \<open>translations[l]\<close> is truthy. \<open>saved_locale\<close> is the test
  \<^verbatim>\<open>saved && translations[saved]\<close> on the one key that is read.
\<close>

definition saved_locale :: "(string \<Rightarrow> bool) \<Rightarrow> storage \<Rightarrow> string \<Rightarrow> string option" where
  "saved_locale valid st key =
     (case st key of
        None \<Rightarrow> None
      | Some saved \<Rightarrow> if saved \<noteq> [] \<and> valid saved then Some saved else None)"

definition clientsAPI_get :: "platform \<Rightarrow> storage \<Rightarrow> string \<Rightarrow> request" where
  "clientsAPI_get env st ident = api_get env st (''/api/clients/'' @ ident) []"

text \<open>
  \<open>run\<close> is the body of the provider's effect; the provider's state is the locale, next
  to the browser. \<open>server\<close> is the outcome of \<open>clientsAPI.get(tenantId)\<close>; it passes the
  response interceptor of the client before \<open>run\<close> sees it, so a rejection with status 401
  removes \<open>token\<close> and sets the location, and the \<open>catch\<close> block of \<open>run\<close> ignores the
  error. \<open>cancelled\<close> tells whether the effect was cleaned up before the answer came. The
  result: the browser, the locale, and the requests sent.
\<close>

definition run ::
  "platform \<Rightarrow> (string \<Rightarrow> bool) \<Rightarrow> axios_error + axios_response \<Rightarrow> bool \<Rightarrow> browser \<times> string
     \<Rightarrow> (browser \<times> string) \<times> request list" where
  "run env valid server cancelled s =
     (let b = fst s; locale = snd s; st = localStorage b;
          tenantId = resolveTenantId env st
      in case savedKey tenantId of
        None \<Rightarrow> (s, [])
      | Some key \<Rightarrow>
          (case saved_locale valid st key of
             Some saved \<Rightarrow> ((b, if cancelled then locale else saved), [])
           | None \<Rightarrow>
               if \<not> truthy tenantId then (s, [])
               else (case ToString tenantId of
                 None \<Rightarrow> (s, [])
               | Some tid \<Rightarrow>
                   let req = clientsAPI_get env st tid;
                       answered = response_interceptor b server;
                       b1 = fst answered
                   in (case snd answered of
                     Inl err \<Rightarrow> ((b1, locale), [req])
                   | Inr res \<Rightarrow>
                       let serverLocale = chain (chain (resp_data res) ''settings'') ''locale'' in
                       if truthy serverLocale then
                         (case ToString serverLocale of
                            None \<Rightarrow> ((b1, locale), [req])
                          | Some l \<Rightarrow>
                              if valid l
                              then ((b1\<lparr>localStorage := (localStorage b1)(key \<mapsto> l, ''locale'' \<mapsto> l)\<rparr>,
                                     if cancelled then locale else l), [req])
                              else ((b1, locale), [req]))
                       else ((b1, locale), [req])))))"

text \<open>\<open>setLocale\<close> sets the state first, then writes both keys.\<close>

definition setLocale :: "platform \<Rightarrow> string \<Rightarrow> browser \<times> string \<Rightarrow> browser \<times> string" where
  "setLocale env newLocale s =
     (case savedKey (resolveTenantId env (localStorage (fst s))) of
        None \<Rightarrow> (fst s, newLocale)
      | Some key \<Rightarrow>
          ((fst s)\<lparr>localStorage := (localStorage (fst s))(key \<mapsto> newLocale, ''locale'' \<mapsto> newLocale)\<rparr>,
           newLocale))"

section \<open>A concrete platform and two users\<close>

text \<open>Two users as the login endpoint documents them, and a platform whose
  \<open>JSON.parse\<close> and \<open>JSON.stringify\<close> are given on these two users (the curly texts
  stand for their JSON texts).\<close>

definition client_user :: jsval where
  "client_user = JObj [(''id'', JStr ''u1''), (''username'', JStr ''ana''), (''role'', JStr ''client''),
     (''client_id'', JStr ''tenant-a''), (''client_name'', JStr ''Loja A'')]"

definition admin_user :: jsval where
  "admin_user = JObj [(''id'', JStr ''u0''), (''username'', JStr ''root''), (''role'', JStr ''admin''),
     (''client_id'', Null), (''client_name'', Null)]"

definition unlinked_user :: jsval where
  "unlinked_user = JObj [(''id'', JStr ''u2''), (''username'', JStr ''bia''), (''role'', JStr ''client''),
     (''client_id'', Null), (''client_name'', Null)]"

definition demo :: platform where
  "demo = \<lparr>JSON_parse = (\<lambda>s. if s = ''{client ana}'' then Some client_user
                            else if s = ''{admin root}'' then Some admin_user
                            else if s = ''{client bia}'' then Some unlinked_user
                            else if s = ''null'' then Some Null else None),
           JSON_stringify = (\<lambda>v. if v = client_user then ''{client ana}''
                            else if v = admin_user then ''{admin root}''
                            else if v = unlinked_user then ''{client bia}'' else ''null''),
           baseURL = ''https://api.example.com'',
           TypeError_message = ''Cannot convert object to primitive value''\<rparr>"

definition client_storage :: storage where
  "client_storage = [''token'' \<mapsto> ''jwt-1'', ''user'' \<mapsto> ''{client ana}'']"

definition admin_storage :: storage where
  "admin_storage = [''token'' \<mapsto> ''jwt-0'', ''user'' \<mapsto> ''{admin root}'',
     ''active_tenant_id'' \<mapsto> ''tenant-b'', ''active_tenant_name'' \<mapsto> ''Loja B'']"

definition locales :: "string \<Rightarrow> bool" where
  "locales l = (l = ''pt'' \<or> l = ''es'' \<or> l = ''en'')"

definition browser0 :: browser where
  "browser0 = \<lparr>localStorage = client_storage, href = ''/dash/conversations''\<rparr>"

definition rejected :: "int \<Rightarrow> axios_error" where
  "rejected code = \<lparr>err_response = Some \<lparr>resp_status = code, resp_data = Null\<rparr>\<rparr>"

definition client_c :: client where
  "client_c = \<lparr>client_id = ''tenant-c'', client_name = ''Loja C''\<rparr>"

section \<open>The live portal: app/live/[token]/page.tsx\<close>

text \<open>The interfaces \<open>Message\<close> and \<open>Conversation\<close> of the page; an optional
  field is an \<open>option\<close>, the free-form \<open>metadata\<close> is a value.\<close>

record portal_message =
  pm_id :: string
  pm_direction :: string
  pm_message_type :: string
  pm_text :: "string option"
  pm_created_at :: string

record conversation =
  project_id :: string
  conversation_id :: string
  contact_name :: "string option"
  channel_type :: string
  status :: string
  last_event_at :: string
  last_text :: "string option"
  message_count :: "nat option"
  ai_state :: "string option"
  summary_short :: "string option"
  metadata :: jsval
  messages :: "portal_message list option"

text \<open>\<^verbatim>\<open>const API_URL = process.env.NEXT_PUBLIC_API_URL || 'http://localhost:8000';\<close>\<close>

definition API_URL :: "string option \<Rightarrow> string" where
  "API_URL NEXT_PUBLIC_API_URL =
     (case NEXT_PUBLIC_API_URL of
        None \<Rightarrow> ''http://localhost:8000''
      | Some u \<Rightarrow> if u \<noteq> [] then u else ''http://localhost:8000'')"

text \<open>The \<open>options\<close> of \<open>fetch\<close> that the page uses.\<close>

record request_init =
  init_method :: "string option"
  init_body :: jsval
  init_headers :: "string \<rightharpoonup> string"

text \<open>
  \<open>portalFetch(url, options)\<close>, the request it sends: the options, with the headers
  replaced by \<open>Content-Type\<close> merged with the headers of the options. What comes back is
  the environment's answer: \<open>Inr\<close> the parsed body, \<open>Inl\<close> the message of the error
  thrown (a failed request, a status that is not ok, a body that is not JSON).
\<close>

definition portalFetch_request :: "string \<Rightarrow> string \<Rightarrow> request_init option \<Rightarrow> request" where
  "portalFetch_request api u options =
     \<lparr>req_method = (case options of None \<Rightarrow> ''GET''
                     | Some opt \<Rightarrow> (case init_method opt of None \<Rightarrow> ''GET'' | Some m \<Rightarrow> m)),
      req_url = api @ u,
      req_params = [],
      req_headers = [''Content-Type'' \<mapsto> ''application/json'']
                    ++ (case options of None \<Rightarrow> Map.empty | Some opt \<Rightarrow> init_headers opt),
      req_body = (case options of None \<Rightarrow> Undefined | Some opt \<Rightarrow> init_body opt)\<rparr>"

text \<open>The calls of \<open>portalFetch\<close> in the page, one definition per call.\<close>

definition detect_request :: "string \<Rightarrow> string \<Rightarrow> request" where
  "detect_request api token = portalFetch_request api (''/api/live/'' @ token) None"

definition list_request :: "string \<Rightarrow> string \<Rightarrow> request" where
  "list_request api token =
     portalFetch_request api (''/api/live/'' @ token @ ''/conversations?limit=100'') None"

definition detail_request :: "string \<Rightarrow> string \<Rightarrow> string \<Rightarrow> request" where
  "detail_request api token cid =
     portalFetch_request api (''/api/live/'' @ token @ ''/conversations/'' @ cid) None"

definition send_request :: "string \<Rightarrow> string \<Rightarrow> string \<Rightarrow> string \<Rightarrow> request" where
  "send_request api token cid txt =
     portalFetch_request api (''/api/live/'' @ token @ ''/conversations/'' @ cid @ ''/send'')
       (Some \<lparr>init_method = Some ''POST'', init_body = JObj [(''text'', JStr txt)],
              init_headers = Map.empty\<rparr>)"

definition status_request :: "string \<Rightarrow> string \<Rightarrow> string \<Rightarrow> string \<Rightarrow> request" where
  "status_request api token cid newStatus =
     portalFetch_request api (''/api/live/'' @ token @ ''/conversations/'' @ cid @ ''/status'')
       (Some \<lparr>init_method = Some ''PATCH'',
              init_body = JObj [(''status'', JStr newStatus), (''reason'', JStr ''Alterado via portal'')],
              init_headers = Map.empty\<rparr>)"

definition followup_request :: "string \<Rightarrow> string \<Rightarrow> string \<Rightarrow> string \<Rightarrow> request" where
  "followup_request api token cid followupDate =
     portalFetch_request api (''/api/live/'' @ token @ ''/conversations/'' @ cid @ ''/followup'')
       (Some \<lparr>init_method = Some ''PATCH'',
              init_body = JObj [(''next_followup_at'', if followupDate \<noteq> [] then JStr followupDate else Null),
                                (''followup_stage'', JNum (if followupDate \<noteq> [] then 1 else 0))],
              init_headers = Map.empty\<rparr>)"

subsection \<open>PortalPage\<close>

datatype portal_type = Portal | LiveView

record portal_page =
  portalType :: "portal_type option"
  conversations :: "conversation list"
  selectedConv :: "conversation option"
  loading :: bool
  error :: "string option"
  search :: string
  statusFilter :: string

definition PortalPage_init :: portal_page where
  "PortalPage_init = \<lparr>portalType = None, conversations = [], selectedConv = None,
     loading = True, error = None, search = [], statusFilter = ''all''\<rparr>"

text \<open>\<open>loadConversations\<close>, given the answer to its request.\<close>

definition loadConversations :: "string + conversation list \<Rightarrow> portal_page \<Rightarrow> portal_page" where
  "loadConversations answer p =
     (case answer of
        Inr rows \<Rightarrow> p\<lparr>conversations := rows, error := None, loading := False\<rparr>
      | Inl msg \<Rightarrow> p\<lparr>error := Some msg, loading := False\<rparr>)"

text \<open>
  The first effect, which detects the type of the token. The answer to
  \<open>GET /api/live/token\<close> is the pair of its \<open>type\<close> and of itself read as a conversation;
  \<open>rows\<close> answers the list request that a portal token triggers. An answer that is not
  an object ends in the same \<open>catch\<close> as a failed request and is an \<open>Inl\<close> here. The
  result is the state and the requests sent, in order.
\<close>

definition detect ::
  "string \<Rightarrow> string \<Rightarrow> string + jsval \<times> conversation \<Rightarrow> string + conversation list
     \<Rightarrow> portal_page \<Rightarrow> portal_page \<times> page_effect list" where
  "detect api token answer rows p =
     (case answer of
        Inl msg \<Rightarrow> (p\<lparr>error := Some msg, loading := False\<rparr>, [Request (detect_request api token)])
      | Inr (ty, d) \<Rightarrow>
          if ty = JStr ''portal'' then
            (loadConversations rows (p\<lparr>portalType := Some Portal\<rparr>),
             [Request (detect_request api token), Request (list_request api token)])
          else if messages d \<noteq> None then
            (p\<lparr>portalType := Some LiveView, selectedConv := Some d, loading := False\<rparr>,
             [Request (detect_request api token)])
          else (p, [Request (detect_request api token)]))"

text \<open>The second effect: the list is polled under a portal token only.\<close>

definition PortalPage_poll :: "string \<Rightarrow> string \<Rightarrow> portal_page \<Rightarrow> page_effect list" where
  "PortalPage_poll api token p =
     (if portalType p \<noteq> Some Portal then []
      else [SetInterval 10000 (list_request api token)])"

definition openConversation ::
  "string \<Rightarrow> string \<Rightarrow> conversation \<Rightarrow> string + conversation \<Rightarrow> portal_page
     \<Rightarrow> portal_page \<times> page_effect list" where
  "openConversation api token c answer p =
     (case answer of
        Inr d \<Rightarrow> p\<lparr>selectedConv := Some d\<rparr>
      | Inl msg \<Rightarrow> p\<lparr>error := Some msg\<rparr>,
      [Request (detail_request api token (conversation_id c))])"

text \<open>What the page shows. The list is filtered by the search text and by the
  status. \<open>toLowerCase\<close> is given on the letters A to Z; \<open>includes_str\<close> is \<open>String.prototype.includes\<close>, containment of a
  string in another.\<close>

datatype screen =
    Spinner
  | LinkUnavailable string
  | ConversationView conversation "portal_type option"
  | ConversationList "conversation list"

definition toLowerCase :: "string \<Rightarrow> string" where
  "toLowerCase s =
     map (\<lambda>c. if 65 \<le> (of_char c :: nat) \<and> (of_char c :: nat) \<le> 90
              then char_of (of_char c + 32 :: nat) else c) s"

fun includes_str :: "string \<Rightarrow> string \<Rightarrow> bool" where
  "includes_str [] t = (t = [])"
| "includes_str (x # xs) t = (take (length t) (x # xs) = t \<or> includes_str xs t)"

definition or_empty :: "string option \<Rightarrow> string" where
  "or_empty s = (case s of None \<Rightarrow> [] | Some t \<Rightarrow> t)"

definition filtered :: "portal_page \<Rightarrow> conversation list" where
  "filtered p =
     filter (\<lambda>c.
        (search p = []
         \<or> includes_str (toLowerCase (or_empty (contact_name c))) (toLowerCase (search p))
         \<or> includes_str (toLowerCase (conversation_id c)) (toLowerCase (search p))
         \<or> includes_str (toLowerCase (or_empty (last_text c))) (toLowerCase (search p)))
        \<and> (statusFilter p = ''all'' \<or> status c = statusFilter p))
       (conversations p)"

definition PortalPage_render :: "portal_page \<Rightarrow> screen" where
  "PortalPage_render p =
     (if loading p then Spinner
      else case error p of
        Some msg \<Rightarrow>
          if msg \<noteq> [] \<and> conversations p = [] \<and> selectedConv p = None then LinkUnavailable msg
          else (case selectedConv p of
                  Some c \<Rightarrow> ConversationView c (portalType p)
                | None \<Rightarrow> ConversationList (filtered p))
      | None \<Rightarrow>
          (case selectedConv p of
             Some c \<Rightarrow> ConversationView c (portalType p)
           | None \<Rightarrow> ConversationList (filtered p)))"

subsection \<open>ConversationView\<close>

text \<open>\<open>String.prototype.trim\<close> removes white space at both ends; among the code
  units below 256 these are tab, line feed, vertical tab, form feed, carriage return,
  space and the no-break space.\<close>

definition is_ws :: "char \<Rightarrow> bool" where
  "is_ws c = (c \<in> set [CHR 0x09, CHR 0x0A, CHR 0x0B, CHR 0x0C, CHR 0x0D, CHR 0x20, CHR 0xA0])"

definition trim :: "string \<Rightarrow> string" where
  "trim s = rev (dropWhile is_ws (rev (dropWhile is_ws s)))"

record conversation_view =
  conv :: conversation
  replyText :: string
  sending :: bool
  sendError :: "string option"
  statusLoading :: bool
  showFollowup :: bool
  followupDate :: string

definition ConversationView_init :: "conversation \<Rightarrow> conversation_view" where
  "ConversationView_init initial = \<lparr>conv = initial, replyText = [], sending = False,
     sendError = None, statusLoading = False, showFollowup = False, followupDate = []\<rparr>"

definition isHandoff :: "conversation_view \<Rightarrow> bool" where
  "isHandoff v = (status (conv v) = ''handoff'')"

definition takeoverUntil :: "conversation_view \<Rightarrow> jsval" where
  "takeoverUntil v = chain (metadata (conv v)) ''human_takeover_until''"

definition canAct :: "portal_type \<Rightarrow> bool" where
  "canAct pt = (pt = Portal)"

text \<open>The polling effect of the view.\<close>

definition ConversationView_poll :: "string \<Rightarrow> string \<Rightarrow> conversation_view \<Rightarrow> page_effect list" where
  "ConversationView_poll api token v =
     [SetInterval 3000 (detail_request api token (conversation_id (conv v)))]"

definition refresh :: "string + conversation \<Rightarrow> conversation_view \<Rightarrow> conversation_view" where
  "refresh answer v = (case answer of Inr d \<Rightarrow> v\<lparr>conv := d\<rparr> | Inl msg \<Rightarrow> v)"

text \<open>
  \<open>handleSend\<close>, given the answers to the \<open>POST\<close> and to the \<open>GET\<close> that follows it. The
  handler runs as one step: what a poll does between the two requests is not modelled.
\<close>

definition handleSend ::
  "string \<Rightarrow> string \<Rightarrow> string + jsval \<Rightarrow> string + conversation \<Rightarrow> conversation_view
     \<Rightarrow> conversation_view \<times> page_effect list" where
  "handleSend api token posted fetched v =
     (if trim (replyText v) = [] \<or> sending v then (v, [])
      else
        let v1 = v\<lparr>sendError := None, sending := True\<rparr>;
            post = Request (send_request api token (conversation_id (conv v)) (trim (replyText v)));
            fetch = Request (detail_request api token (conversation_id (conv v)))
        in case posted of
             Inl msg \<Rightarrow> (v1\<lparr>sendError := Some msg, sending := False\<rparr>, [post])
           | Inr ok \<Rightarrow>
               (case fetched of
                  Inl msg \<Rightarrow>
                    (v1\<lparr>replyText := [], sendError := Some msg, sending := False\<rparr>, [post, fetch])
                | Inr d \<Rightarrow> (v1\<lparr>replyText := [], conv := d, sending := False\<rparr>, [post, fetch])))"

definition handleStatusChange ::
  "string \<Rightarrow> string \<Rightarrow> string \<Rightarrow> string + jsval \<Rightarrow> string + conversation \<Rightarrow> conversation_view
     \<Rightarrow> conversation_view \<times> page_effect list" where
  "handleStatusChange api token newStatus patched fetched v =
     (let v1 = v\<lparr>statusLoading := True\<rparr>;
          patch = Request (status_request api token (conversation_id (conv v)) newStatus);
          fetch = Request (detail_request api token (conversation_id (conv v)))
      in case patched of
           Inl msg \<Rightarrow> (v1\<lparr>sendError := Some msg, statusLoading := False\<rparr>, [patch])
         | Inr ok \<Rightarrow>
             (case fetched of
                Inl msg \<Rightarrow> (v1\<lparr>sendError := Some msg, statusLoading := False\<rparr>, [patch, fetch])
              | Inr d \<Rightarrow> (v1\<lparr>conv := d, statusLoading := False\<rparr>, [patch, fetch])))"

definition handleFollowup ::
  "string \<Rightarrow> string \<Rightarrow> string + jsval \<Rightarrow> conversation_view
     \<Rightarrow> conversation_view \<times> page_effect list" where
  "handleFollowup api token patched v =
     (case patched of
        Inr ok \<Rightarrow> v\<lparr>showFollowup := False, followupDate := []\<rparr>
      | Inl msg \<Rightarrow> v\<lparr>sendError := Some msg\<rparr>,
      [Request (followup_request api token (conversation_id (conv v)) (followupDate v))])"

text \<open>What the view renders, as far as its controls go: the buttons of the header (the
  status button with the status it asks for), the hand-off banner with the time it shows,
  the follow-up scheduler, the reply box and the read-only footer.\<close>

record view_controls =
  back_button :: bool
  followup_button :: bool
  status_button :: "string option"
  status_button_disabled :: bool
  handoff_banner :: "jsval option"
  followup_scheduler :: bool
  reply_box :: bool
  send_disabled :: bool
  readonly_footer :: bool

definition ConversationView_render :: "portal_type \<Rightarrow> bool \<Rightarrow> conversation_view \<Rightarrow> view_controls" where
  "ConversationView_render pt onBack v =
     \<lparr>back_button = onBack,
      followup_button = canAct pt,
      status_button = (if canAct pt then Some (if \<not> isHandoff v then ''handoff'' else ''open'')
                       else None),
      status_button_disabled = statusLoading v,
      handoff_banner = (if isHandoff v \<and> truthy (takeoverUntil v) then Some (takeoverUntil v)
                        else None),
      followup_scheduler = (showFollowup v \<and> canAct pt),
      reply_box = canAct pt,
      send_disabled = (trim (replyText v) = [] \<or> sending v),
      readonly_footer = (\<not> canAct pt)\<rparr>"

text \<open>The timers of the whole page: the list timer, and the timer of the conversation
  view while that view is on the screen.\<close>

definition PortalPage_timers :: "string \<Rightarrow> string \<Rightarrow> portal_page \<Rightarrow> page_effect list" where
  "PortalPage_timers api token p =
     PortalPage_poll api token p @
     (case PortalPage_render p of
        ConversationView c pt \<Rightarrow> ConversationView_poll api token (ConversationView_init c)
      | _ \<Rightarrow> [])"

text \<open>All requests the portal page can send, for a token, a conversation, a reply
  text, a new status and a follow-up date.\<close>

definition portal_requests ::
  "string \<Rightarrow> string \<Rightarrow> string \<Rightarrow> string \<Rightarrow> string \<Rightarrow> string \<Rightarrow> request list" where
  "portal_requests api token cid txt newStatus date =
     [detect_request api token, list_request api token, detail_request api token cid,
      send_request api token cid txt, status_request api token cid newStatus,
      followup_request api token cid date]"

definition conversation0 :: conversation where
  "conversation0 = \<lparr>project_id = ''tenant-a'', conversation_id = ''5511999990000'',
     contact_name = Some ''Rui'', channel_type = ''whatsapp'', status = ''open'',
     last_event_at = ''2026-01-01T10:00:00Z'', last_text = Some ''oi'', message_count = Some 1,
     ai_state = None, summary_short = None, metadata = Null,
     messages = Some [\<lparr>pm_id = ''m1'', pm_direction = ''in'', pm_message_type = ''text'',
       pm_text = Some ''oi'', pm_created_at = ''2026-01-01T10:00:00Z''\<rparr>]\<rparr>"

section \<open>The staff conversation viewer\<close>

subsection \<open>hooks/useConversation.ts\<close>

text \<open>The interface \<open>ConversationData\<close>; its fields carry the prefix \<open>cd\<close> here, the
  state of the hook the prefix \<open>hk\<close>.\<close>

record conversationData =
  cd_project_id :: string
  cd_conversation_id :: string
  cd_contact_name :: "string option"
  cd_channel_type :: string
  cd_status :: string
  cd_last_event_at :: string
  cd_ai_state :: "string option"
  cd_summary_short :: "string option"
  cd_metadata :: jsval
  cd_messages :: "message list"

record useConversationOptions =
  opt_enabled :: "bool option"
  opt_pollInterval :: "nat option"

text \<open>\<^verbatim>\<open>const { enabled = true, pollInterval = 5000 } = options;\<close>\<close>

definition enabled :: "useConversationOptions \<Rightarrow> bool" where
  "enabled options = (case opt_enabled options of None \<Rightarrow> True | Some b \<Rightarrow> b)"

definition pollInterval :: "useConversationOptions \<Rightarrow> nat" where
  "pollInterval options = (case opt_pollInterval options of None \<Rightarrow> 5000 | Some n \<Rightarrow> n)"

record hook_state =
  hk_conversation :: "conversationData option"
  hk_messages :: "message list"
  hk_loading :: bool
  hk_error :: jsval
  hk_isPolling :: bool
  hk_sending :: bool
  hk_lastMessageCount :: nat

definition useConversation_init :: hook_state where
  "useConversation_init = \<lparr>hk_conversation = None, hk_messages = [], hk_loading = True,
     hk_error = Null, hk_isPolling = False, hk_sending = False, hk_lastMessageCount = 0\<rparr>"

text \<open>\<open>err.response?.data?.detail\<close>\<close>

definition error_detail :: "axios_error \<Rightarrow> jsval" where
  "error_detail err =
     (case err_response err of None \<Rightarrow> Undefined | Some r \<Rightarrow> chain (resp_data r) ''detail'')"

text \<open>The message of the error thrown by
  \<^verbatim>\<open>throw new Error(err.response?.data?.detail || fallback)\<close>: the detail as a string, or
  the engine's TypeError when the detail has no string form.\<close>

definition thrown_message :: "platform \<Rightarrow> axios_error \<Rightarrow> string \<Rightarrow> string" where
  "thrown_message env err fallback =
     (if truthy (error_detail err)
      then (case ToString (error_detail err) of Some s \<Rightarrow> s | None \<Rightarrow> TypeError_message env)
      else fallback)"

text \<open>\<open>fetchConversation\<close>, given the answer to its request; it never throws.\<close>

definition fetchConversation :: "axios_error + conversationData \<Rightarrow> hook_state \<Rightarrow> hook_state" where
  "fetchConversation answer h =
     (case answer of
        Inr d \<Rightarrow>
          h\<lparr>hk_conversation := Some d, hk_messages := cd_messages d,
            hk_lastMessageCount := (if length (cd_messages d) > hk_lastMessageCount h
                                    then length (cd_messages d) else hk_lastMessageCount h),
            hk_error := Null, hk_loading := False\<rparr>
      | Inl err \<Rightarrow>
          h\<lparr>hk_error := (if truthy (error_detail err) then error_detail err
                          else JStr ''Erro ao carregar conversa''),
            hk_loading := False\<rparr>)"

text \<open>The two effects of the hook: the first fetch, and the polling timer.\<close>

definition useConversation_fetch ::
  "platform \<Rightarrow> storage \<Rightarrow> string \<Rightarrow> string \<Rightarrow> useConversationOptions \<Rightarrow> page_effect list" where
  "useConversation_fetch env st projectId conversationId options =
     (if enabled options \<and> projectId \<noteq> [] \<and> conversationId \<noteq> []
      then [Request (fetchConversation_request env st projectId conversationId)] else [])"

definition useConversation_poll ::
  "platform \<Rightarrow> storage \<Rightarrow> string \<Rightarrow> string \<Rightarrow> useConversationOptions \<Rightarrow> hook_state
     \<Rightarrow> hook_state \<times> page_effect list" where
  "useConversation_poll env st projectId conversationId options h =
     (if \<not> enabled options \<or> projectId = [] \<or> conversationId = [] then (h, [])
      else (h\<lparr>hk_isPolling := True\<rparr>,
            [SetInterval (pollInterval options)
               (fetchConversation_request env st projectId conversationId)]))"

definition sendMessage_request :: "platform \<Rightarrow> storage \<Rightarrow> string \<Rightarrow> string \<Rightarrow> string \<Rightarrow> request" where
  "sendMessage_request env st projectId conversationId txt =
     api_post env st (''/api/conversations/'' @ projectId @ ''/'' @ conversationId @ ''/send'')
       (JObj [(''text'', JStr txt)])"

text \<open>\<open>sendMessage\<close>: the state of the hook, the value returned (\<open>Inr\<close>) or the message of
  the error thrown (\<open>Inl\<close>), and the requests sent.\<close>

definition sendMessage ::
  "platform \<Rightarrow> storage \<Rightarrow> string \<Rightarrow> string \<Rightarrow> string
     \<Rightarrow> axios_error + axios_response \<Rightarrow> axios_error + conversationData \<Rightarrow> hook_state
     \<Rightarrow> hook_state \<times> (string + jsval) \<times> page_effect list" where
  "sendMessage env st projectId conversationId txt posted fetched h =
     (let h1 = h\<lparr>hk_sending := True\<rparr>;
          post = Request (sendMessage_request env st projectId conversationId txt)
      in case posted of
           Inl err \<Rightarrow>
             (h1\<lparr>hk_sending := False\<rparr>, Inl (thrown_message env err ''Erro ao enviar mensagem''),
              [post])
         | Inr resp \<Rightarrow>
             ((fetchConversation fetched h1)\<lparr>hk_sending := False\<rparr>, Inr (resp_data resp),
              [post, Request (fetchConversation_request env st projectId conversationId)]))"

definition updateStatus_request ::
  "platform \<Rightarrow> storage \<Rightarrow> string \<Rightarrow> string \<Rightarrow> string \<Rightarrow> string option \<Rightarrow> request" where
  "updateStatus_request env st projectId conversationId newStatus reason =
     api_patch env st (''/api/conversations/'' @ projectId @ ''/'' @ conversationId @ ''/status'')
       (JObj [(''status'', JStr newStatus),
              (''reason'', case reason of None \<Rightarrow> Undefined | Some r \<Rightarrow> JStr r)])"

definition updateStatus ::
  "platform \<Rightarrow> storage \<Rightarrow> string \<Rightarrow> string \<Rightarrow> string \<Rightarrow> string option
     \<Rightarrow> axios_error + axios_response \<Rightarrow> axios_error + conversationData \<Rightarrow> hook_state
     \<Rightarrow> hook_state \<times> (string + jsval) \<times> page_effect list" where
  "updateStatus env st projectId conversationId newStatus reason patched fetched h =
     (let patch = Request (updateStatus_request env st projectId conversationId newStatus reason)
      in case patched of
           Inl err \<Rightarrow> (h, Inl (thrown_message env err ''Erro ao atualizar status''), [patch])
         | Inr resp \<Rightarrow>
             (fetchConversation fetched h, Inr (resp_data resp),
              [patch, Request (fetchConversation_request env st projectId conversationId)]))"

subsection \<open>ConversationViewerPage\<close>

text \<open>The state of the page next to the hook's; the share dialog is left out.\<close>

record viewer_page =
  pg_replyText :: string
  pg_sendError :: "string option"
  pg_statusLoading :: bool

definition ConversationViewerPage_init :: viewer_page where
  "ConversationViewerPage_init = \<lparr>pg_replyText = [], pg_sendError = None, pg_statusLoading = False\<rparr>"

definition viewer_handleSend ::
  "platform \<Rightarrow> storage \<Rightarrow> string \<Rightarrow> string
     \<Rightarrow> axios_error + axios_response \<Rightarrow> axios_error + conversationData
     \<Rightarrow> viewer_page \<times> hook_state \<Rightarrow> (viewer_page \<times> hook_state) \<times> page_effect list" where
  "viewer_handleSend env st projectId conversationId posted fetched s =
     (let pg = fst s; h = snd s in
      if trim (pg_replyText pg) = [] \<or> hk_sending h then (s, [])
      else
        let pg1 = pg\<lparr>pg_sendError := None\<rparr>;
            r = sendMessage env st projectId conversationId (trim (pg_replyText pg)) posted fetched h
        in case fst (snd r) of
             Inr v \<Rightarrow> ((pg1\<lparr>pg_replyText := []\<rparr>, fst r), snd (snd r))
           | Inl msg \<Rightarrow> ((pg1\<lparr>pg_sendError := Some msg\<rparr>, fst r), snd (snd r)))"

text \<open>\<open>handleTakeover\<close> and \<open>handleReturnToBot\<close> differ in the status and the reason.\<close>

definition viewer_status_handler ::
  "string \<Rightarrow> string \<Rightarrow> platform \<Rightarrow> storage \<Rightarrow> string \<Rightarrow> string
     \<Rightarrow> axios_error + axios_response \<Rightarrow> axios_error + conversationData
     \<Rightarrow> viewer_page \<times> hook_state \<Rightarrow> (viewer_page \<times> hook_state) \<times> page_effect list" where
  "viewer_status_handler newStatus reason env st projectId conversationId patched fetched s =
     (let pg1 = (fst s)\<lparr>pg_statusLoading := True\<rparr>;
          r = updateStatus env st projectId conversationId newStatus (Some reason) patched fetched (snd s)
      in case fst (snd r) of
           Inr v \<Rightarrow> ((pg1\<lparr>pg_statusLoading := False\<rparr>, fst r), snd (snd r))
         | Inl msg \<Rightarrow> ((pg1\<lparr>pg_sendError := Some msg, pg_statusLoading := False\<rparr>, fst r),
                       snd (snd r)))"

definition handleTakeover ::
  "platform \<Rightarrow> storage \<Rightarrow> string \<Rightarrow> string
     \<Rightarrow> axios_error + axios_response \<Rightarrow> axios_error + conversationData
     \<Rightarrow> viewer_page \<times> hook_state \<Rightarrow> (viewer_page \<times> hook_state) \<times> page_effect list" where
  "handleTakeover = viewer_status_handler ''handoff'' ''Takeover manual pelo dashboard''"

definition handleReturnToBot ::
  "platform \<Rightarrow> storage \<Rightarrow> string \<Rightarrow> string
     \<Rightarrow> axios_error + axios_response \<Rightarrow> axios_error + conversationData
     \<Rightarrow> viewer_page \<times> hook_state \<Rightarrow> (viewer_page \<times> hook_state) \<times> page_effect list" where
  "handleReturnToBot = viewer_status_handler ''open'' ''Devolvido ao bot pelo dashboard''"

text \<open>What the viewer renders once the conversation is loaded: the one status button
  (by the status it asks for), the hand-off banner, the send button.\<close>

record viewer_controls =
  vc_live_badge :: bool
  vc_status_button :: string
  vc_status_button_disabled :: bool
  vc_handoff_banner :: "jsval option"
  vc_send_disabled :: bool

datatype viewer_screen = ViewerLoading | ViewerNotFound | Viewer viewer_controls

definition ConversationViewerPage_render :: "viewer_page \<times> hook_state \<Rightarrow> viewer_screen" where
  "ConversationViewerPage_render s =
     (let pg = fst s; h = snd s in
      if hk_loading h then ViewerLoading
      else case hk_conversation h of
        None \<Rightarrow> ViewerNotFound
      | Some c \<Rightarrow>
          let handoff = (cd_status c = ''handoff'');
              until = chain (cd_metadata c) ''human_takeover_until''
          in Viewer \<lparr>vc_live_badge = hk_isPolling h,
                     vc_status_button = (if \<not> handoff then ''handoff'' else ''open''),
                     vc_status_button_disabled = pg_statusLoading pg,
                     vc_handoff_banner = (if handoff \<and> truthy until then Some until else None),
                     vc_send_disabled = (trim (pg_replyText pg) = [] \<or> hk_sending h)\<rparr>)"

subsection \<open>Quick status change on the conversation list page\<close>

text \<open>The rows of the list page have the fields of \<open>conversation\<close> that they share
  with the portal's interface.\<close>

definition quick_status_request :: "platform \<Rightarrow> storage \<Rightarrow> conversation \<Rightarrow> string \<Rightarrow> request" where
  "quick_status_request env st c newStatus =
     api_patch env st
       (''/api/conversations/'' @ project_id c @ ''/'' @ conversation_id c @ ''/status'')
       (JObj [(''status'', JStr newStatus),
              (''reason'', JStr (if newStatus = ''handoff'' then ''Transferido para humano via lista''
                                else ''Devolvido ao bot via lista''))])"

definition handleQuickStatus ::
  "platform \<Rightarrow> storage \<Rightarrow> conversation \<Rightarrow> string \<Rightarrow> axios_error + axios_response
     \<Rightarrow> conversation list \<Rightarrow> conversation list \<times> page_effect list" where
  "handleQuickStatus env st c newStatus patched rows =
     (case patched of
        Inr resp \<Rightarrow>
          map (\<lambda>r. if conversation_id r = conversation_id c then r\<lparr>status := newStatus\<rparr> else r) rows
      | Inl err \<Rightarrow> rows,
      [Request (quick_status_request env st c newStatus)])"

text \<open>The button of a row, by the status it asks for.\<close>

definition quick_status_button :: "conversation \<Rightarrow> string" where
  "quick_status_button c = (if status c \<noteq> ''handoff'' then ''handoff'' else ''open'')"

section \<open>Requests over time\<close>

text \<open>The number of requests an effect has sent \<open>t\<close> milliseconds after it ran: one
  for a request, one per elapsed interval for a timer.\<close>

fun requests_by :: "nat \<Rightarrow> page_effect \<Rightarrow> nat" where
  "requests_by t (Navigate route) = 0"
| "requests_by t (Request r) = 1"
| "requests_by t (SetInterval i r) = t div i"

definition requests_sent :: "nat \<Rightarrow> page_effect list \<Rightarrow> nat" where
  "requests_sent t effects = sum_list (map (requests_by t) effects)"

definition viewer_state0 :: "viewer_page \<times> hook_state" where
  "viewer_state0 =
     (\<lparr>pg_replyText = '' ola '', pg_sendError = None, pg_statusLoading = False\<rparr>,
      useConversation_init\<lparr>hk_loading := False\<rparr>)"

definition conversationData0 :: conversationData where
  "conversationData0 = \<lparr>cd_project_id = ''tenant-a'', cd_conversation_id = ''5511999990000'',
     cd_contact_name = Some ''Rui'', cd_channel_type = ''whatsapp'', cd_status = ''handoff'',
     cd_last_event_at = ''2026-01-01T10:00:00Z'', cd_ai_state = None, cd_summary_short = None,
     cd_metadata = JObj [(''human_takeover_until'', JStr ''2026-01-01T13:00:00Z'')],
     cd_messages = []\<rparr>"

definition view0 :: conversation_view where
  "view0 = (ConversationView_init conversation0)\<lparr>replyText := '' ola ''\<rparr>"

definition handoff_view :: conversation_view where
  "handoff_view = ConversationView_init
     (conversation0\<lparr>status := ''handoff'',
        metadata := JObj [(''human_takeover_until'', JStr ''2026-01-01T13:00:00Z'')]\<rparr>)"


section \<open>Properties of JavaScript values\<close>

lemma get_chain: "get v k = (if nullish v then None else Some (chain v k))"
  by (cases v) (simp_all add: chain_def nullish_def)

lemma idx_chain_idx: "idx v i = (if nullish v then None else Some (chain_idx v i))"
  by (cases v) (simp_all add: chain_idx_def nullish_def)

lemma truthy_not_nullish: "truthy v \<Longrightarrow> \<not> nullish v"
  by (cases v) (simp_all add: nullish_def)

lemma chain_nullish: "nullish v \<Longrightarrow> chain v k = Undefined"
  by (auto simp: nullish_def chain_def)

lemma truthy_chain_not_nullish: "truthy (chain v k) \<Longrightarrow> \<not> nullish v"
  using chain_nullish [of v k] by auto

lemma chain_not_nullish: "\<not> nullish (chain v k) \<Longrightarrow> \<not> nullish v"
  using chain_nullish [of v k] by (auto simp: nullish_def)

lemma truthy_chain2_not_nullish: "truthy (chain (chain v a) b) \<Longrightarrow> \<not> nullish v"
  by (blast dest: truthy_chain_not_nullish chain_not_nullish)

section \<open>Properties of getMessageText\<close>

lemma getMessageText_no_text:
  "no_text msg \<Longrightarrow> getMessageText msg =
     (if \<not> truthy (raw_payload msg) then Null
      else case getMessageText_try (raw_payload msg) of Some (Some v) \<Rightarrow> v | _ \<Rightarrow> Null)"
  by (auto simp: no_text_def getMessageText_def)

text \<open>Inside the \<open>try\<close> block only the attachment branch can throw: when the first
  attachment is \<open>null\<close> or missing, or when its type has no string form.\<close>

lemma getMessageText_try_eq:
  assumes "truthy raw"
  shows "getMessageText_try raw =
    (let messaging = first_messaging raw; m = chain messaging ''message'' in
     if truthy (chain m ''text'') then Some (Some (chain m ''text''))
     else if truthy (chain (chain m ''reply_to'') ''story'')
       then Some (Some (JStr ''[Resposta a story]''))
     else if truthy (chain (chain m ''attachments'') ''length'') then
       (case first_attachment_type m of None \<Rightarrow> None
        | Some ty \<Rightarrow>
           (case ToString (if truthy ty then ty else JStr ''attachment'') of None \<Rightarrow> None
            | Some s \<Rightarrow> Some (Some (JStr (''['' @ s @ '']'')))))
     else if truthy (chain messaging ''postback'') then
       Some (Some (if truthy (chain (chain messaging ''postback'') ''title'')
                   then chain (chain messaging ''postback'') ''title'' else JStr ''[postback]''))
     else Some None)"
proof -
  define messaging where "messaging = first_messaging raw"
  define m where "m = chain messaging ''message''"
  have r: "get raw ''entry'' = Some (chain raw ''entry'')"
    using assms by (simp add: get_chain truthy_not_nullish)
  have mg: "chain_idx (chain (chain_idx (chain raw ''entry'') 0) ''messaging'') 0 = messaging"
    by (simp add: messaging_def first_messaging_def)
  have t: "truthy (chain m ''text'') \<Longrightarrow> get m ''text'' = Some (chain m ''text'')"
    by (simp add: get_chain truthy_chain_not_nullish)
  have a: "truthy (chain (chain m ''attachments'') ''length'') \<Longrightarrow>
           get m ''attachments'' = Some (chain m ''attachments'')"
    by (simp add: get_chain truthy_chain2_not_nullish)
  have p: "truthy (chain messaging ''postback'') \<Longrightarrow>
           get messaging ''postback'' = Some (chain messaging ''postback'')
           \<and> get (chain messaging ''postback'') ''title''
               = Some (chain (chain messaging ''postback'') ''title'')"
    by (simp add: get_chain truthy_chain_not_nullish truthy_not_nullish)
  show ?thesis
    unfolding getMessageText_try_def r first_attachment_type_def Let_def
    apply (simp only: bind.simps mg)
    apply (simp only: messaging_def [symmetric] m_def [symmetric])
    apply (cases "truthy (chain m ''text'')")
     apply (simp add: t)
    apply (cases "truthy (chain (chain m ''reply_to'') ''story'')")
     apply simp
    apply (cases "truthy (chain (chain m ''attachments'') ''length'')")
     apply (simp add: a split: option.splits Option.bind_splits)
    apply (cases "truthy (chain messaging ''postback'')")
     apply (simp add: p)
    apply simp
    done
qed

lemma getMessageText_payload:
  assumes "no_text msg" and "truthy (raw_payload msg)"
  shows "getMessageText msg = payload_display (raw_payload msg)"
  using assms
  by (simp add: getMessageText_no_text getMessageText_try_eq payload_display_def Let_def
           split: option.splits)

text \<open>
  Claim C10, as the code has it. getMessageText returns a value for every message and
  never lets an exception escape. It returns \<open>msg.text\<close> when that is a non-empty string
  (an empty string counts as no text). Without text it returns \<open>null\<close> when the payload is
  absent (falsy); otherwise the nested message text, the literal \<open>[Resposta a story]\<close>
  for a story reply, \<open>[type]\<close> from the first attachment's type (\<open>[attachment]\<close> when the
  type is missing, \<open>null\<close> when the first attachment is \<open>null\<close> or its type has no string
  form), the postback title (\<open>[postback]\<close> when the title is missing), and \<open>null\<close> when
  the payload has none of these shapes.
\<close>

theorem getMessageText_display:
  "(\<forall>s. msg_text msg = Some s \<and> s \<noteq> [] \<longrightarrow> getMessageText msg = JStr s)
   \<and> (no_text msg \<and> \<not> truthy (raw_payload msg) \<longrightarrow> getMessageText msg = Null)
   \<and> (no_text msg \<and> truthy (raw_payload msg) \<longrightarrow>
        getMessageText msg = payload_display (raw_payload msg))"
proof (intro conjI allI impI)
  fix s assume "msg_text msg = Some s \<and> s \<noteq> []"
  then show "getMessageText msg = JStr s" by (simp add: getMessageText_def)
next
  assume "no_text msg \<and> \<not> truthy (raw_payload msg)"
  then show "getMessageText msg = Null" by (simp add: getMessageText_no_text)
next
  assume "no_text msg \<and> truthy (raw_payload msg)"
  then show "getMessageText msg = payload_display (raw_payload msg)"
    by (simp add: getMessageText_payload)
qed

lemma payload_display_examples:
  "payload_display (webhook (JObj [(''message'', JObj [(''text'', JStr ''oi'')])])) = JStr ''oi''"
  "payload_display (webhook (JObj [(''message'', JObj [(''reply_to'', JObj [(''story'', JObj [])])])]))
     = JStr ''[Resposta a story]''"
  "payload_display (webhook (JObj [(''message'',
       JObj [(''attachments'', JArr [JObj [(''type'', JStr ''image'')]])])])) = JStr ''[image]''"
  "payload_display (webhook (JObj [(''message'', JObj [(''attachments'', JArr [JObj []])])]))
     = JStr ''[attachment]''"
  "payload_display (webhook (JObj [(''message'', JObj [(''attachments'', JArr [Null])])])) = Null"
  "payload_display (webhook (JObj [(''postback'', JObj [(''title'', JStr ''Menu'')])])) = JStr ''Menu''"
  "payload_display (webhook (JObj [(''postback'', JObj [])])) = JStr ''[postback]''"
  "payload_display (webhook (JObj [])) = Null"
  "payload_display (JNum 5) = Null"
  by (simp_all add: payload_display_def webhook_def first_messaging_def first_attachment_type_def
        chain_def chain_idx_def dec.simps [of 0])

lemma truthy_webhook: "truthy (webhook x)"
  by (simp add: webhook_def)

theorem getMessageText_display_witness:
  "getMessageText (incoming (Some ''bom dia'') Null) = JStr ''bom dia''
   \<and> getMessageText (incoming None Null) = Null
   \<and> getMessageText (incoming (Some [])
        (webhook (JObj [(''message'', JObj [(''attachments'', JArr [JObj [(''type'', JStr ''image'')]])])])))
      = JStr ''[image]''
   \<and> getMessageText (incoming None (webhook (JObj [(''postback'', JObj [])]))) = JStr ''[postback]''
   \<and> getMessageText (incoming None
        (webhook (JObj [(''message'', JObj [(''attachments'', JArr [Null])])]))) = Null"
proof -
  have n: "no_text (incoming None r)" "no_text (incoming (Some []) r)" for r
    by (simp_all add: no_text_def incoming_def)
  have p: "raw_payload (incoming t r) = r" "msg_text (incoming t r) = t" for t r
    by (simp_all add: incoming_def)
  have 1: "getMessageText (incoming (Some ''bom dia'') Null) = JStr ''bom dia''"
    using getMessageText_display [of "incoming (Some ''bom dia'') Null"] by (simp add: p)
  have 2: "getMessageText (incoming None Null) = Null"
    using getMessageText_display [of "incoming None Null"] by (simp add: n p)
  have 3: "getMessageText (incoming (Some [])
        (webhook (JObj [(''message'', JObj [(''attachments'', JArr [JObj [(''type'', JStr ''image'')]])])])))
      = JStr ''[image]''"
    using getMessageText_display [of "incoming (Some [])
        (webhook (JObj [(''message'', JObj [(''attachments'', JArr [JObj [(''type'', JStr ''image'')]])])]))"]
    by (simp add: n p truthy_webhook payload_display_examples)
  have 4: "getMessageText (incoming None (webhook (JObj [(''postback'', JObj [])]))) = JStr ''[postback]''"
    using getMessageText_display [of "incoming None (webhook (JObj [(''postback'', JObj [])]))"]
    by (simp add: n p truthy_webhook payload_display_examples)
  have 5: "getMessageText (incoming None
        (webhook (JObj [(''message'', JObj [(''attachments'', JArr [Null])])]))) = Null"
    using getMessageText_display [of "incoming None
        (webhook (JObj [(''message'', JObj [(''attachments'', JArr [Null])])]))"]
    by (simp add: n p truthy_webhook payload_display_examples)
  from 1 2 3 4 5 show ?thesis by simp
qed

text \<open>
  Claim C10 as stated fails: with the non-null text \<open>""\<close> and no payload the function
  returns \<open>null\<close>, not \<open>msg.text\<close>.
\<close>

theorem getMessageText_empty_text_counterexample:
  "msg_text (incoming (Some []) Null) \<noteq> None
   \<and> getMessageText (incoming (Some []) Null) \<noteq> JStr []"
  by (simp add: incoming_def getMessageText_def)

section \<open>The axios client\<close>

lemma api_get_fields:
  "req_url (api_get env st path ps) = baseURL env @ path"
  "req_params (api_get env st path ps) = ps"
  "req_method (api_get env st path ps) = ''GET''"
  by (simp_all add: api_get_def api_call_def request_interceptor_def split: option.splits)

text \<open>
  Claim C8. When a call through the shared axios client is rejected with a response of
  status 401, the response interceptor removes \<open>token\<close> from local storage (and no other
  key), sets the location to \<open>/login\<close> and rejects with the same error. A rejection with
  any other status, or without a response, changes nothing and is rejected unchanged; a
  fulfilled response is returned unchanged.
\<close>

theorem response_interceptor_401:
  "(\<forall>r. err_response e = Some r \<and> resp_status r = 401 \<longrightarrow>
      localStorage (fst (response_interceptor b (Inl e))) ''token'' = None
      \<and> (\<forall>k. k \<noteq> ''token'' \<longrightarrow>
            localStorage (fst (response_interceptor b (Inl e))) k = localStorage b k)
      \<and> href (fst (response_interceptor b (Inl e))) = ''/login''
      \<and> snd (response_interceptor b (Inl e)) = Inl e)
   \<and> ((err_response e = None \<or> (\<exists>r. err_response e = Some r \<and> resp_status r \<noteq> 401)) \<longrightarrow>
        response_interceptor b (Inl e) = (b, Inl e))
   \<and> response_interceptor b (Inr resp) = (b, Inr resp)"
  by (auto simp: response_interceptor_def)

theorem response_interceptor_401_witness:
  "localStorage (fst (response_interceptor browser0 (Inl (rejected 401)))) ''token'' = None
   \<and> localStorage (fst (response_interceptor browser0 (Inl (rejected 401)))) ''user''
       = Some ''{client ana}''
   \<and> href (fst (response_interceptor browser0 (Inl (rejected 401)))) = ''/login''
   \<and> snd (response_interceptor browser0 (Inl (rejected 401))) = Inl (rejected 401)
   \<and> response_interceptor browser0 (Inl (rejected 500)) = (browser0, Inl (rejected 500))
   \<and> response_interceptor browser0 (Inl \<lparr>err_response = None\<rparr>)
       = (browser0, Inl \<lparr>err_response = None\<rparr>)"
  using response_interceptor_401 [of "rejected 401" browser0]
    response_interceptor_401 [of "rejected 500" browser0]
    response_interceptor_401 [of "\<lparr>err_response = None\<rparr>" browser0]
  by (simp add: browser0_def rejected_def client_storage_def)

section \<open>Tenant scoping\<close>

lemma page_tenant_Some:
  "page_tenant env st = Some t \<Longrightarrow>
   \<exists>ud user role. st ''user'' = Some ud \<and> ud \<noteq> [] \<and> JSON_parse env ud = Some user
     \<and> get user ''role'' = Some role
     \<and> t = (if role = JStr ''admin'' then getItem st ''active_tenant_id''
            else chain user ''client_id'')"
  by (auto simp: page_tenant_def tenant_of_user_def get_chain
           split: option.splits if_splits Option.bind_splits)

lemma demo_simps:
  "JSON_parse demo ''{client ana}'' = Some client_user"
  "JSON_parse demo ''{admin root}'' = Some admin_user"
  "JSON_parse demo ''{client bia}'' = Some unlinked_user"
  "JSON_stringify demo client_user = ''{client ana}''"
  "JSON_stringify demo admin_user = ''{admin root}''"
  "JSON_stringify demo unlinked_user = ''{client bia}''"
  "baseURL demo = ''https://api.example.com''"
  by (simp_all add: demo_def client_user_def admin_user_def unlinked_user_def)

lemma user_simps:
  "get client_user ''role'' = Some (JStr ''client'')"
  "get client_user ''client_id'' = Some (JStr ''tenant-a'')"
  "get admin_user ''role'' = Some (JStr ''admin'')"
  "get admin_user ''client_id'' = Some Null"
  "get unlinked_user ''role'' = Some (JStr ''client'')"
  "get unlinked_user ''client_id'' = Some Null"
  "chain client_user ''role'' = JStr ''client''"
  "chain client_user ''client_id'' = JStr ''tenant-a''"
  "chain client_user ''client_name'' = JStr ''Loja A''"
  "chain admin_user ''role'' = JStr ''admin''"
  "chain unlinked_user ''role'' = JStr ''client''"
  "chain unlinked_user ''client_id'' = Null"
  by (simp_all add: client_user_def admin_user_def unlinked_user_def chain_def)

lemma page_tenant_demo:
  "page_tenant demo client_storage = Some (JStr ''tenant-a'')"
  "page_tenant demo admin_storage = Some (JStr ''tenant-b'')"
  by (simp_all add: page_tenant_def client_storage_def admin_storage_def demo_simps
        tenant_of_user_def user_simps getItem_def)

text \<open>
  Claim C5, as the code has it. Every request of the conversation list page carries the
  tenant resolved from local storage as its \<open>project_id\<close> parameter, and every request of
  the Meta configuration page carries it in its path; the resolved tenant is the user's
  own \<open>client_id\<close> unless the role is \<open>admin\<close>, and the stored \<open>active_tenant_id\<close> for an
  admin. The conversation detail request carries in its path the project and the
  conversation of the route, whatever tenant is stored.
\<close>

theorem tenant_scoped_requests:
  "(\<forall>rs r. ConversationsPage_effect env st = Some rs \<and> Request r \<in> set rs \<longrightarrow>
      (\<exists>t. page_tenant env st = Some t \<and> truthy t
           \<and> req_url r = baseURL env @ ''/api/conversations/''
           \<and> req_params r = [(''project_id'', t)]))
   \<and> (\<forall>rs r. MetaConfigPage_effect env st = Some rs \<and> Request r \<in> set rs \<longrightarrow>
      (\<exists>t s. page_tenant env st = Some t \<and> truthy t \<and> ToString t = Some s
           \<and> req_url r = baseURL env @ ''/api/config/meta/'' @ s))
   \<and> (\<forall>t. page_tenant env st = Some t \<longrightarrow>
      (\<exists>ud user role. st ''user'' = Some ud \<and> JSON_parse env ud = Some user
         \<and> get user ''role'' = Some role
         \<and> t = (if role = JStr ''admin'' then getItem st ''active_tenant_id''
                else chain user ''client_id'')))
   \<and> req_url (fetchConversation_request env st projectId conversationId)
        = baseURL env @ ''/api/conversations/'' @ projectId @ ''/'' @ conversationId
   \<and> req_params (fetchConversation_request env st projectId conversationId) = []"
proof (intro conjI allI impI)
  fix rs r
  assume "ConversationsPage_effect env st = Some rs \<and> Request r \<in> set rs"
  then show "\<exists>t. page_tenant env st = Some t \<and> truthy t
           \<and> req_url r = baseURL env @ ''/api/conversations/''
           \<and> req_params r = [(''project_id'', t)]"
    by (auto simp: ConversationsPage_effect_def page_tenant_def loadConversations_request_def
          api_get_fields split: option.splits if_splits Option.bind_splits)
next
  fix rs r
  assume "MetaConfigPage_effect env st = Some rs \<and> Request r \<in> set rs"
  then show "\<exists>t s. page_tenant env st = Some t \<and> truthy t \<and> ToString t = Some s
           \<and> req_url r = baseURL env @ ''/api/config/meta/'' @ s"
    by (auto simp: MetaConfigPage_effect_def page_tenant_def loadCurrentConfig_request_def
          api_get_fields split: option.splits if_splits Option.bind_splits)
next
  fix t
  assume "page_tenant env st = Some t"
  then show "\<exists>ud user role. st ''user'' = Some ud \<and> JSON_parse env ud = Some user
         \<and> get user ''role'' = Some role
         \<and> t = (if role = JStr ''admin'' then getItem st ''active_tenant_id''
                else chain user ''client_id'')"
    by (blast dest: page_tenant_Some)
qed (simp_all add: fetchConversation_request_def api_get_fields)

theorem tenant_scoped_requests_witness:
  "ConversationsPage_effect demo client_storage
     = Some [Request (loadConversations_request demo client_storage (JStr ''tenant-a''))]
   \<and> (\<exists>t. page_tenant demo client_storage = Some t \<and> truthy t
        \<and> req_params (loadConversations_request demo client_storage (JStr ''tenant-a''))
            = [(''project_id'', t)])
   \<and> (\<exists>r. MetaConfigPage_effect demo admin_storage = Some [Request r]
        \<and> req_url r = ''https://api.example.com/api/config/meta/tenant-b'')"
proof -
  have c: "ConversationsPage_effect demo client_storage
     = Some [Request (loadConversations_request demo client_storage (JStr ''tenant-a''))]"
    by (simp add: ConversationsPage_effect_def client_storage_def demo_simps tenant_of_user_def
          user_simps)
  have m: "MetaConfigPage_effect demo admin_storage
     = Some [Request (api_get demo admin_storage ''/api/config/meta/tenant-b'' [])]"
    by (simp add: MetaConfigPage_effect_def admin_storage_def demo_simps tenant_of_user_def
          user_simps getItem_def loadCurrentConfig_request_def)
  have 1: "\<exists>t. page_tenant demo client_storage = Some t \<and> truthy t
        \<and> req_params (loadConversations_request demo client_storage (JStr ''tenant-a''))
            = [(''project_id'', t)]"
    using tenant_scoped_requests [of demo client_storage, THEN conjunct1, rule_format,
        OF conjI, OF c, of "loadConversations_request demo client_storage (JStr ''tenant-a'')"]
    by auto
  have 2: "\<exists>t s. page_tenant demo admin_storage = Some t \<and> truthy t \<and> ToString t = Some s
        \<and> req_url (api_get demo admin_storage ''/api/config/meta/tenant-b'' [])
            = baseURL demo @ ''/api/config/meta/'' @ s"
    using tenant_scoped_requests [of demo admin_storage, THEN conjunct2, THEN conjunct1,
        rule_format, OF conjI, OF m, of "api_get demo admin_storage ''/api/config/meta/tenant-b'' []"]
    by auto
  then have 3: "req_url (api_get demo admin_storage ''/api/config/meta/tenant-b'' [])
      = ''https://api.example.com/api/config/meta/tenant-b''"
    by (auto simp: page_tenant_demo demo_simps)
  from c 1 m 3 show ?thesis by blast
qed

text \<open>
  Claim C5 as stated fails for the conversation detail request: a client-role user whose
  own tenant is \<open>tenant-a\<close> and who opens the route of project \<open>tenant-b\<close> sends a request
  whose path names \<open>tenant-b\<close> and which has no \<open>project_id\<close> parameter.
\<close>

theorem tenant_scoped_requests_counterexample:
  "page_tenant demo client_storage = Some (JStr ''tenant-a'')
   \<and> req_url (fetchConversation_request demo client_storage ''tenant-b'' ''c1'')
        = ''https://api.example.com/api/conversations/tenant-b/c1''
   \<and> req_params (fetchConversation_request demo client_storage ''tenant-b'' ''c1'') = []"
  by (simp add: page_tenant_demo fetchConversation_request_def api_get_fields demo_simps)

section \<open>Session and tenant selection in local storage\<close>

text \<open>
  Claim C6, as the code has it. A successful login stores the access token under
  \<open>token\<close> and the serialised user under \<open>user\<close>; for a client-role user that has a
  \<open>client_id\<close> it also stores \<open>active_tenant_id\<close> and \<open>active_tenant_name\<close> (the client's
  name, or the empty string) and goes to \<open>/dash\<close>. The admin's open-dashboard action stores
  the chosen client's id and name under the same two keys. The pages read these keys
  back: after the login of a client-role user they resolve that user's \<open>client_id\<close>, and
  for a stored admin user they resolve the client chosen last.
\<close>

theorem login_persists_session:
  "fst (handleLogin_success env tok user st) ''token'' = Some tok
   \<and> fst (handleLogin_success env tok user st) ''user'' = Some (JSON_stringify env user)
   \<and> (\<forall>cid name. chain user ''role'' = JStr ''client'' \<and> truthy (chain user ''client_id'')
         \<and> ToString (chain user ''client_id'') = Some cid
         \<and> ToString (if truthy (chain user ''client_name'') then chain user ''client_name''
                      else JStr []) = Some name \<longrightarrow>
        fst (handleLogin_success env tok user st) ''active_tenant_id'' = Some cid
        \<and> fst (handleLogin_success env tok user st) ''active_tenant_name'' = Some name
        \<and> snd (handleLogin_success env tok user st) = Some ''/dash'')
   \<and> fst (handleOpenDashboard c st) ''active_tenant_id'' = Some (client_id c)
   \<and> fst (handleOpenDashboard c st) ''active_tenant_name'' = Some (client_name c)
   \<and> snd (handleOpenDashboard c st) = ''/dash''
   \<and> (\<forall>cid. chain user ''role'' = JStr ''client'' \<and> chain user ''client_id'' = JStr cid
         \<and> JSON_stringify env user \<noteq> []
         \<and> JSON_parse env (JSON_stringify env user) = Some user \<longrightarrow>
        page_tenant env (fst (handleLogin_success env tok user st)) = Some (JStr cid))
   \<and> (\<forall>ud u. st ''user'' = Some ud \<and> ud \<noteq> [] \<and> JSON_parse env ud = Some u
         \<and> chain u ''role'' = JStr ''admin'' \<longrightarrow>
        page_tenant env (fst (handleOpenDashboard c st)) = Some (JStr (client_id c)))"
proof -
  let ?st' = "fst (handleLogin_success env tok user st)"
  have tu: "?st' ''token'' = Some tok \<and> ?st' ''user'' = Some (JSON_stringify env user)"
    by (simp add: handleLogin_success_def Let_def split: option.splits)
  have cl: "?st' ''active_tenant_id'' = Some cid \<and> ?st' ''active_tenant_name'' = Some name
        \<and> snd (handleLogin_success env tok user st) = Some ''/dash''"
    if "chain user ''role'' = JStr ''client''" "truthy (chain user ''client_id'')"
       "ToString (chain user ''client_id'') = Some cid"
       "ToString (if truthy (chain user ''client_name'') then chain user ''client_name''
                      else JStr []) = Some name" for cid name
    using that by (simp add: handleLogin_success_def Let_def)
  have od: "fst (handleOpenDashboard c st) ''active_tenant_id'' = Some (client_id c)
     \<and> fst (handleOpenDashboard c st) ''active_tenant_name'' = Some (client_name c)
     \<and> snd (handleOpenDashboard c st) = ''/dash''"
    by (simp add: handleOpenDashboard_def)
  have rb: "page_tenant env ?st' = Some (JStr cid)"
    if "chain user ''role'' = JStr ''client''" "chain user ''client_id'' = JStr cid"
       "JSON_stringify env user \<noteq> []" "JSON_parse env (JSON_stringify env user) = Some user"
    for cid
  proof -
    have nn: "\<not> nullish user" using that(1) chain_nullish [of user "''role''"] by auto
    show ?thesis using that tu nn
      by (simp add: page_tenant_def tenant_of_user_def get_chain)
  qed
  have ra: "page_tenant env (fst (handleOpenDashboard c st)) = Some (JStr (client_id c))"
    if "st ''user'' = Some ud" "ud \<noteq> []" "JSON_parse env ud = Some u"
       "chain u ''role'' = JStr ''admin''" for ud u
  proof -
    have nn: "\<not> nullish u" using that(4) chain_nullish [of u "''role''"] by auto
    show ?thesis using that nn
      by (simp add: page_tenant_def tenant_of_user_def get_chain handleOpenDashboard_def
            getItem_def)
  qed
  from tu cl od rb ra show ?thesis by blast
qed

theorem login_persists_session_witness:
  "fst (handleLogin_success demo ''jwt-1'' client_user Map.empty) ''token'' = Some ''jwt-1''
   \<and> fst (handleLogin_success demo ''jwt-1'' client_user Map.empty) ''user'' = Some ''{client ana}''
   \<and> fst (handleLogin_success demo ''jwt-1'' client_user Map.empty) ''active_tenant_id''
       = Some ''tenant-a''
   \<and> fst (handleLogin_success demo ''jwt-1'' client_user Map.empty) ''active_tenant_name''
       = Some ''Loja A''
   \<and> page_tenant demo (fst (handleLogin_success demo ''jwt-1'' client_user Map.empty))
       = Some (JStr ''tenant-a'')
   \<and> page_tenant demo (fst (handleOpenDashboard client_c admin_storage)) = Some (JStr ''tenant-c'')"
proof -
  note t = login_persists_session [of demo "''jwt-1''" client_user Map.empty client_c]
  note u = login_persists_session [of demo "''jwt-1''" client_user admin_storage client_c]
  have 1: "fst (handleLogin_success demo ''jwt-1'' client_user Map.empty) ''token'' = Some ''jwt-1''"
    using t by blast
  have 2: "fst (handleLogin_success demo ''jwt-1'' client_user Map.empty) ''user''
      = Some ''{client ana}''"
    using t by (simp add: demo_simps)
  have h: "chain client_user ''role'' = JStr ''client'' \<and> truthy (chain client_user ''client_id'')
         \<and> ToString (chain client_user ''client_id'') = Some ''tenant-a''
         \<and> ToString (if truthy (chain client_user ''client_name'')
              then chain client_user ''client_name'' else JStr []) = Some ''Loja A''"
    by (simp add: user_simps)
  have 3: "fst (handleLogin_success demo ''jwt-1'' client_user Map.empty) ''active_tenant_id''
       = Some ''tenant-a''
     \<and> fst (handleLogin_success demo ''jwt-1'' client_user Map.empty) ''active_tenant_name''
       = Some ''Loja A''"
    using t h by blast
  have 4: "page_tenant demo (fst (handleLogin_success demo ''jwt-1'' client_user Map.empty))
       = Some (JStr ''tenant-a'')"
    using t by (simp add: user_simps demo_simps)
  have 5: "page_tenant demo (fst (handleOpenDashboard client_c admin_storage))
       = Some (JStr ''tenant-c'')"
    using u by (simp add: user_simps demo_simps admin_storage_def client_c_def)
  from 1 2 3 4 5 show ?thesis by blast
qed

text \<open>
  Claim C6 as stated fails for a client-role user without \<open>client_id\<close>: the login stores
  neither \<open>active_tenant_id\<close> nor \<open>active_tenant_name\<close>.
\<close>

theorem login_persists_session_counterexample:
  "chain unlinked_user ''role'' = JStr ''client''
   \<and> fst (handleLogin_success demo ''jwt-2'' unlinked_user Map.empty) ''active_tenant_id'' = None
   \<and> fst (handleLogin_success demo ''jwt-2'' unlinked_user Map.empty) ''active_tenant_name'' = None
   \<and> snd (handleLogin_success demo ''jwt-2'' unlinked_user Map.empty) = Some ''/dash''"
  by (simp add: handleLogin_success_def user_simps Let_def)

text \<open>The whole handler: a rejected login stores nothing, and one rejected with status
  401 loses a token stored before; a fulfilled one stores what \<open>handleLogin_success\<close>
  stores.\<close>

lemma handleLogin_rejected:
  "handleLogin env (Inl e) b = (fst (response_interceptor b (Inl e)), None)"
  "localStorage (fst (handleLogin env (Inl (rejected 401)) b)) = (localStorage b)(''token'' := None)"
  "handleLogin env (Inl (rejected 500)) b = (b, None)"
  by (simp_all add: handleLogin_def Let_def response_interceptor_def rejected_def)

lemma handleLogin_fulfilled:
  "get (resp_data res) ''access_token'' = Some (JStr tok) \<Longrightarrow>
   handleLogin env (Inr res) b
     = (b\<lparr>localStorage := fst (handleLogin_success env tok (chain (resp_data res) ''user'')
                                  (localStorage b))\<rparr>,
        snd (handleLogin_success env tok (chain (resp_data res) ''user'') (localStorage b)))"
  by (simp add: handleLogin_def Let_def response_interceptor_def)

section \<open>The locale of a tenant\<close>

lemma resolveTenantId_demo:
  "st ''user'' = Some ''{client ana}'' \<Longrightarrow> resolveTenantId demo st = JStr ''tenant-a''"
  by (simp add: resolveTenantId_def demo_simps tenant_of_user_def user_simps)

text \<open>
  Claim C7, as the code has it. The provider reads one key of local storage:
  \<open>locale:tenantId\<close> when a tenant is resolved, and \<open>locale\<close> only when none is; for a
  resolved tenant the key \<open>locale\<close> is written but never read. With a valid locale saved
  under that key it takes that locale, sends nothing and writes nothing. Without one, and
  with a tenant, it sends exactly one request, \<open>GET /api/clients/tenantId\<close> through the
  shared client; a valid \<open>settings.locale\<close> of the answer is written into both the tenant's
  key and \<open>locale\<close> and becomes the locale (unless the effect was cancelled), any other
  answer leaves storage and locale as they were, and a failed request changes only what
  the client's response interceptor changes. \<open>setLocale\<close> writes the new locale into the
  same two keys.
\<close>

theorem locale_mirror:
  assumes "savedKey (resolveTenantId env (localStorage b)) = Some key"
  shows
  "(\<forall>k x. (saved_locale valid (localStorage b) k = Some x)
            = (localStorage b k = Some x \<and> x \<noteq> [] \<and> valid x))
   \<and> (\<forall>saved. saved_locale valid (localStorage b) key = Some saved \<longrightarrow>
        run env valid server cancelled (b, locale)
          = ((b, if cancelled then locale else saved), []))
   \<and> (saved_locale valid (localStorage b) key = None
        \<and> \<not> truthy (resolveTenantId env (localStorage b)) \<longrightarrow>
        run env valid server cancelled (b, locale) = ((b, locale), []))
   \<and> (saved_locale valid (localStorage b) key = None
        \<and> truthy (resolveTenantId env (localStorage b)) \<longrightarrow>
        (\<exists>tid. ToString (resolveTenantId env (localStorage b)) = Some tid
           \<and> key = ''locale:'' @ tid
           \<and> snd (run env valid server cancelled (b, locale))
               = [clientsAPI_get env (localStorage b) tid]
           \<and> req_method (clientsAPI_get env (localStorage b) tid) = ''GET''
           \<and> req_url (clientsAPI_get env (localStorage b) tid) = baseURL env @ ''/api/clients/'' @ tid
           \<and> req_params (clientsAPI_get env (localStorage b) tid) = []
           \<and> req_body (clientsAPI_get env (localStorage b) tid) = Undefined
           \<and> req_headers (clientsAPI_get env (localStorage b) tid) ''Authorization''
               = (case localStorage b ''token'' of
                    None \<Rightarrow> None
                  | Some token \<Rightarrow> if token \<noteq> [] then Some (''Bearer '' @ token) else None)))
   \<and> (\<forall>res l. saved_locale valid (localStorage b) key = None
         \<and> truthy (resolveTenantId env (localStorage b))
         \<and> server = Inr res \<and> chain (chain (resp_data res) ''settings'') ''locale'' = JStr l
         \<and> l \<noteq> [] \<and> valid l \<longrightarrow>
        fst (run env valid server cancelled (b, locale))
          = (b\<lparr>localStorage := (localStorage b)(key \<mapsto> l, ''locale'' \<mapsto> l)\<rparr>,
             if cancelled then locale else l))
   \<and> (\<forall>res. saved_locale valid (localStorage b) key = None
         \<and> truthy (resolveTenantId env (localStorage b))
         \<and> server = Inr res
         \<and> (\<not> truthy (chain (chain (resp_data res) ''settings'') ''locale'')
              \<or> (\<forall>l. ToString (chain (chain (resp_data res) ''settings'') ''locale'') = Some l
                       \<longrightarrow> \<not> valid l)) \<longrightarrow>
        fst (run env valid server cancelled (b, locale)) = (b, locale))
   \<and> (\<forall>e. saved_locale valid (localStorage b) key = None
         \<and> truthy (resolveTenantId env (localStorage b)) \<and> server = Inl e \<longrightarrow>
        fst (run env valid server cancelled (b, locale))
          = (fst (response_interceptor b (Inl e)), locale))
   \<and> (\<forall>e r. saved_locale valid (localStorage b) key = None
         \<and> truthy (resolveTenantId env (localStorage b)) \<and> server = Inl e
         \<and> err_response e = Some r \<and> resp_status r = 401 \<longrightarrow>
        fst (run env valid server cancelled (b, locale))
          = (b\<lparr>localStorage := (localStorage b)(''token'' := None), href := ''/login''\<rparr>, locale))
   \<and> setLocale env newLocale (b, locale)
       = (b\<lparr>localStorage := (localStorage b)(key \<mapsto> newLocale, ''locale'' \<mapsto> newLocale)\<rparr>,
          newLocale)
   \<and> (\<forall>t. t \<noteq> [] \<longrightarrow> savedKey (JStr t) = Some (''locale:'' @ t))
   \<and> (\<forall>v. \<not> truthy v \<longrightarrow> savedKey v = Some ''locale'')
   \<and> (\<forall>v. truthy v \<longrightarrow> savedKey v = map_option (\<lambda>s. ''locale:'' @ s) (ToString v))
   \<and> (truthy (resolveTenantId env (localStorage b)) \<longrightarrow> key \<noteq> ''locale'')
   \<and> (localStorage b ''user'' = None \<or> localStorage b ''user'' = Some [] \<longrightarrow>
        resolveTenantId env (localStorage b) = getItem (localStorage b) ''active_tenant_id'')
   \<and> (\<forall>ud u role. localStorage b ''user'' = Some ud \<and> ud \<noteq> [] \<and> JSON_parse env ud = Some u
         \<and> get u ''role'' = Some role \<longrightarrow>
        resolveTenantId env (localStorage b)
          = (if role = JStr ''admin'' then getItem (localStorage b) ''active_tenant_id''
             else chain u ''client_id''))
   \<and> (\<forall>ud. localStorage b ''user'' = Some ud \<and> ud \<noteq> []
         \<and> (JSON_parse env ud = None \<or> (\<exists>u. JSON_parse env ud = Some u \<and> nullish u)) \<longrightarrow>
        resolveTenantId env (localStorage b) = getItem (localStorage b) ''active_tenant_id'')"
proof -
  let ?st = "localStorage b"
  let ?t = "resolveTenantId env ?st"
  have k: "truthy ?t \<Longrightarrow> \<exists>tid. ToString ?t = Some tid \<and> key = ''locale:'' @ tid"
    using assms by (auto simp: savedKey_def)
  have c1: "\<forall>k x. (saved_locale valid ?st k = Some x) = (?st k = Some x \<and> x \<noteq> [] \<and> valid x)"
    by (auto simp: saved_locale_def split: option.splits)
  have c2: "\<forall>saved. saved_locale valid ?st key = Some saved \<longrightarrow>
        run env valid server cancelled (b, locale) = ((b, if cancelled then locale else saved), [])"
    using assms by (simp add: run_def Let_def)
  have c3: "saved_locale valid ?st key = None \<and> \<not> truthy ?t \<longrightarrow>
        run env valid server cancelled (b, locale) = ((b, locale), [])"
    using assms by (simp add: run_def Let_def)
  have f: "req_method (clientsAPI_get env ?st tid) = ''GET''
           \<and> req_url (clientsAPI_get env ?st tid) = baseURL env @ ''/api/clients/'' @ tid
           \<and> req_params (clientsAPI_get env ?st tid) = []
           \<and> req_body (clientsAPI_get env ?st tid) = Undefined
           \<and> req_headers (clientsAPI_get env ?st tid) ''Authorization''
               = (case ?st ''token'' of
                    None \<Rightarrow> None
                  | Some token \<Rightarrow> if token \<noteq> [] then Some (''Bearer '' @ token) else None)" for tid
    by (simp add: clientsAPI_get_def api_get_def api_call_def request_interceptor_def
          split: option.splits)
  have s: "snd (run env valid server cancelled (b, locale)) = [clientsAPI_get env ?st tid]"
    if "saved_locale valid ?st key = None" "truthy ?t" "ToString ?t = Some tid" for tid
    using that assms
    by (cases "snd (response_interceptor b server)")
       (simp_all add: run_def Let_def split: option.splits)
  have c4: "saved_locale valid ?st key = None \<and> truthy ?t \<longrightarrow>
        (\<exists>tid. ToString ?t = Some tid \<and> key = ''locale:'' @ tid
           \<and> snd (run env valid server cancelled (b, locale)) = [clientsAPI_get env ?st tid]
           \<and> req_method (clientsAPI_get env ?st tid) = ''GET''
           \<and> req_url (clientsAPI_get env ?st tid) = baseURL env @ ''/api/clients/'' @ tid
           \<and> req_params (clientsAPI_get env ?st tid) = []
           \<and> req_body (clientsAPI_get env ?st tid) = Undefined
           \<and> req_headers (clientsAPI_get env ?st tid) ''Authorization''
               = (case ?st ''token'' of
                    None \<Rightarrow> None
                  | Some token \<Rightarrow> if token \<noteq> [] then Some (''Bearer '' @ token) else None))"
  proof
    assume h: "saved_locale valid ?st key = None \<and> truthy ?t"
    then obtain tid where t: "ToString ?t = Some tid" "key = ''locale:'' @ tid"
      using k by blast
    from h t s [of tid] f [of tid] show "\<exists>tid. ToString ?t = Some tid \<and> key = ''locale:'' @ tid
           \<and> snd (run env valid server cancelled (b, locale)) = [clientsAPI_get env ?st tid]
           \<and> req_method (clientsAPI_get env ?st tid) = ''GET''
           \<and> req_url (clientsAPI_get env ?st tid) = baseURL env @ ''/api/clients/'' @ tid
           \<and> req_params (clientsAPI_get env ?st tid) = []
           \<and> req_body (clientsAPI_get env ?st tid) = Undefined
           \<and> req_headers (clientsAPI_get env ?st tid) ''Authorization''
               = (case ?st ''token'' of
                    None \<Rightarrow> None
                  | Some token \<Rightarrow> if token \<noteq> [] then Some (''Bearer '' @ token) else None)"
      by blast
  qed
  have c5: "\<forall>res l. saved_locale valid ?st key = None \<and> truthy ?t
         \<and> server = Inr res \<and> chain (chain (resp_data res) ''settings'') ''locale'' = JStr l
         \<and> l \<noteq> [] \<and> valid l \<longrightarrow>
        fst (run env valid server cancelled (b, locale))
          = (b\<lparr>localStorage := ?st(key \<mapsto> l, ''locale'' \<mapsto> l)\<rparr>, if cancelled then locale else l)"
  proof (intro allI impI)
    fix res l
    assume h: "saved_locale valid ?st key = None \<and> truthy ?t
         \<and> server = Inr res \<and> chain (chain (resp_data res) ''settings'') ''locale'' = JStr l
         \<and> l \<noteq> [] \<and> valid l"
    then obtain tid where t: "ToString ?t = Some tid" using k by blast
    from h t assms show "fst (run env valid server cancelled (b, locale))
          = (b\<lparr>localStorage := ?st(key \<mapsto> l, ''locale'' \<mapsto> l)\<rparr>, if cancelled then locale else l)"
      by (simp add: run_def Let_def response_interceptor_def)
  qed
  have c6: "\<forall>res. saved_locale valid ?st key = None \<and> truthy ?t \<and> server = Inr res
         \<and> (\<not> truthy (chain (chain (resp_data res) ''settings'') ''locale'')
              \<or> (\<forall>l. ToString (chain (chain (resp_data res) ''settings'') ''locale'') = Some l
                       \<longrightarrow> \<not> valid l)) \<longrightarrow>
        fst (run env valid server cancelled (b, locale)) = (b, locale)"
  proof (intro allI impI)
    fix res
    assume h: "saved_locale valid ?st key = None \<and> truthy ?t \<and> server = Inr res
         \<and> (\<not> truthy (chain (chain (resp_data res) ''settings'') ''locale'')
              \<or> (\<forall>l. ToString (chain (chain (resp_data res) ''settings'') ''locale'') = Some l
                       \<longrightarrow> \<not> valid l))"
    then obtain tid where t: "ToString ?t = Some tid" using k by blast
    from h t assms show "fst (run env valid server cancelled (b, locale)) = (b, locale)"
      by (auto simp: run_def Let_def response_interceptor_def split: option.splits)
  qed
  have c7: "\<forall>e. saved_locale valid ?st key = None \<and> truthy ?t \<and> server = Inl e \<longrightarrow>
        fst (run env valid server cancelled (b, locale))
          = (fst (response_interceptor b (Inl e)), locale)"
  proof (intro allI impI)
    fix e
    assume h: "saved_locale valid ?st key = None \<and> truthy ?t \<and> server = Inl e"
    then obtain tid where t: "ToString ?t = Some tid" using k by blast
    have r: "snd (response_interceptor b (Inl e)) = Inl e"
      by (simp add: response_interceptor_def)
    from h t assms r show "fst (run env valid server cancelled (b, locale))
          = (fst (response_interceptor b (Inl e)), locale)"
      by (simp add: run_def Let_def)
  qed
  have c8: "\<forall>e r. saved_locale valid ?st key = None \<and> truthy ?t \<and> server = Inl e
         \<and> err_response e = Some r \<and> resp_status r = 401 \<longrightarrow>
        fst (run env valid server cancelled (b, locale))
          = (b\<lparr>localStorage := ?st(''token'' := None), href := ''/login''\<rparr>, locale)"
  proof (intro allI impI)
    fix e r
    assume h: "saved_locale valid ?st key = None \<and> truthy ?t \<and> server = Inl e
         \<and> err_response e = Some r \<and> resp_status r = 401"
    then have "fst (run env valid server cancelled (b, locale))
          = (fst (response_interceptor b (Inl e)), locale)"
      using c7 by blast
    with h show "fst (run env valid server cancelled (b, locale))
          = (b\<lparr>localStorage := ?st(''token'' := None), href := ''/login''\<rparr>, locale)"
      by (simp add: response_interceptor_def)
  qed
  have c9: "setLocale env newLocale (b, locale)
       = (b\<lparr>localStorage := ?st(key \<mapsto> newLocale, ''locale'' \<mapsto> newLocale)\<rparr>, newLocale)"
    using assms by (simp add: setLocale_def)
  have c10: "\<forall>t. t \<noteq> [] \<longrightarrow> savedKey (JStr t) = Some (''locale:'' @ t)"
    by (simp add: savedKey_def)
  have c11: "\<forall>v. \<not> truthy v \<longrightarrow> savedKey v = Some ''locale''"
    by (simp add: savedKey_def)
  have c12: "truthy ?t \<longrightarrow> key \<noteq> ''locale''"
    using k by auto
  have c13: "\<forall>v. truthy v \<longrightarrow> savedKey v = map_option (\<lambda>s. ''locale:'' @ s) (ToString v)"
  proof (intro allI impI)
    fix v assume "truthy v"
    then show "savedKey v = map_option (\<lambda>s. ''locale:'' @ s) (ToString v)"
      unfolding savedKey_def by (simp only: if_True)
  qed
  have c14: "?st ''user'' = None \<or> ?st ''user'' = Some [] \<longrightarrow>
        ?t = getItem ?st ''active_tenant_id''"
    by (auto simp: resolveTenantId_def)
  have c15: "\<forall>ud u role. ?st ''user'' = Some ud \<and> ud \<noteq> [] \<and> JSON_parse env ud = Some u
         \<and> get u ''role'' = Some role \<longrightarrow>
        ?t = (if role = JStr ''admin'' then getItem ?st ''active_tenant_id''
              else chain u ''client_id'')"
    by (auto simp: resolveTenantId_def tenant_of_user_def get_chain split: if_splits)
  have c16: "\<forall>ud. ?st ''user'' = Some ud \<and> ud \<noteq> []
         \<and> (JSON_parse env ud = None \<or> (\<exists>u. JSON_parse env ud = Some u \<and> nullish u)) \<longrightarrow>
        ?t = getItem ?st ''active_tenant_id''"
    by (auto simp: resolveTenantId_def tenant_of_user_def get_chain)
  show ?thesis
    apply (rule conjI, rule c1)
    apply (rule conjI, rule c2)
    apply (rule conjI, rule c3)
    apply (rule conjI, rule c4)
    apply (rule conjI, rule c5)
    apply (rule conjI, rule c6)
    apply (rule conjI, rule c7)
    apply (rule conjI, rule c8)
    apply (rule conjI, rule c9)
    apply (rule conjI, rule c10)
    apply (rule conjI, rule c11)
    apply (rule conjI, rule c13)
    apply (rule conjI, rule c12)
    apply (rule conjI, rule c14)
    apply (rule conjI, rule c15)
    apply (rule c16)
    done
qed


theorem locale_mirror_witness:
  "savedKey (resolveTenantId demo (localStorage browser0)) = Some ''locale:tenant-a''
   \<and> run demo locales (Inr \<lparr>resp_status = 200,
          resp_data = JObj [(''settings'', JObj [(''locale'', JStr ''es'')])]\<rparr>) False (browser0, ''pt'')
       = ((browser0\<lparr>localStorage := client_storage(''locale:tenant-a'' \<mapsto> ''es'', ''locale'' \<mapsto> ''es'')\<rparr>,
           ''es''),
          [clientsAPI_get demo client_storage ''tenant-a''])
   \<and> req_url (clientsAPI_get demo client_storage ''tenant-a'')
       = ''https://api.example.com/api/clients/tenant-a''
   \<and> req_headers (clientsAPI_get demo client_storage ''tenant-a'') ''Authorization''
       = Some ''Bearer jwt-1''
   \<and> run demo locales (Inl (rejected 401)) False (browser0, ''pt'')
       = ((browser0\<lparr>localStorage := client_storage(''token'' := None), href := ''/login''\<rparr>, ''pt''),
          [clientsAPI_get demo client_storage ''tenant-a''])
   \<and> run demo locales (Inl (rejected 500)) False
        (browser0\<lparr>localStorage := client_storage(''locale:tenant-a'' \<mapsto> ''en'')\<rparr>, ''pt'')
       = ((browser0\<lparr>localStorage := client_storage(''locale:tenant-a'' \<mapsto> ''en'')\<rparr>, ''en''), [])
   \<and> setLocale demo ''en'' (browser0, ''pt'')
       = (browser0\<lparr>localStorage := client_storage(''locale:tenant-a'' \<mapsto> ''en'', ''locale'' \<mapsto> ''en'')\<rparr>,
          ''en'')"
proof -
  let ?es = "Inr \<lparr>resp_status = 200,
          resp_data = JObj [(''settings'', JObj [(''locale'', JStr ''es'')])]\<rparr>"
  let ?b = "browser0\<lparr>localStorage := client_storage(''locale:tenant-a'' \<mapsto> ''en'')\<rparr>"
  have l: "localStorage browser0 = client_storage" "localStorage ?b = client_storage(''locale:tenant-a'' \<mapsto> ''en'')"
    by (simp_all add: browser0_def)
  have t: "resolveTenantId demo client_storage = JStr ''tenant-a''"
    "resolveTenantId demo (client_storage(''locale:tenant-a'' \<mapsto> ''en'')) = JStr ''tenant-a''"
    by (simp_all add: resolveTenantId_demo client_storage_def)
  have k: "savedKey (resolveTenantId demo (localStorage browser0)) = Some ''locale:tenant-a''"
    by (simp add: l t savedKey_def)
  have k': "savedKey (resolveTenantId demo (localStorage ?b)) = Some ''locale:tenant-a''"
    by (simp add: l t savedKey_def)
  have n: "saved_locale locales client_storage ''locale:tenant-a'' = None"
    by (simp add: saved_locale_def client_storage_def)
  have s: "saved_locale locales (client_storage(''locale:tenant-a'' \<mapsto> ''en'')) ''locale:tenant-a''
      = Some ''en''"
    by (simp add: saved_locale_def locales_def)
  have c: "chain (chain (JObj [(''settings'', JObj [(''locale'', JStr ''es'')])]) ''settings'') ''locale''
      = JStr ''es''"
    by (simp add: chain_def)
  have tok: "client_storage ''token'' = Some ''jwt-1''"
    by (simp add: client_storage_def)
  note a = locale_mirror [OF k, of locales ?es False "''pt''" "''en''", unfolded l n t]
  note r = locale_mirror [OF k, of locales "Inl (rejected 401)" False "''pt''" "''en''", unfolded l n t]
  note u = locale_mirror [OF k', of locales "Inl (rejected 500)" False "''pt''" "''en''", unfolded l s t]
  have q: "snd (run demo locales ?es False (browser0, ''pt'')) = [clientsAPI_get demo client_storage ''tenant-a'']
     \<and> snd (run demo locales (Inl (rejected 401)) False (browser0, ''pt''))
         = [clientsAPI_get demo client_storage ''tenant-a'']
     \<and> req_url (clientsAPI_get demo client_storage ''tenant-a'')
         = ''https://api.example.com/api/clients/tenant-a''
     \<and> req_headers (clientsAPI_get demo client_storage ''tenant-a'') ''Authorization''
         = Some ''Bearer jwt-1''"
    using a [THEN conjunct2, THEN conjunct2, THEN conjunct2, THEN conjunct1]
      r [THEN conjunct2, THEN conjunct2, THEN conjunct2, THEN conjunct1]
    by (simp add: tok demo_simps)
  have 1: "fst (run demo locales ?es False (browser0, ''pt''))
      = (browser0\<lparr>localStorage := client_storage(''locale:tenant-a'' \<mapsto> ''es'', ''locale'' \<mapsto> ''es'')\<rparr>,
         ''es'')"
    using a [THEN conjunct2, THEN conjunct2, THEN conjunct2, THEN conjunct2, THEN conjunct1,
        rule_format, of "\<lparr>resp_status = 200,
          resp_data = JObj [(''settings'', JObj [(''locale'', JStr ''es'')])]\<rparr>" "''es''"]
    by (simp add: c locales_def)
  have 2: "fst (run demo locales (Inl (rejected 401)) False (browser0, ''pt''))
      = (browser0\<lparr>localStorage := client_storage(''token'' := None), href := ''/login''\<rparr>, ''pt'')"
    using r [THEN conjunct2, THEN conjunct2, THEN conjunct2, THEN conjunct2, THEN conjunct2,
        THEN conjunct2, THEN conjunct2, THEN conjunct1, rule_format, of "rejected 401"
        "\<lparr>resp_status = 401, resp_data = Null\<rparr>"]
    by (simp add: rejected_def)
  have 3: "run demo locales (Inl (rejected 500)) False (?b, ''pt'') = ((?b, ''en''), [])"
    using u [THEN conjunct2, THEN conjunct1, rule_format, of "''en''"] by simp
  have 4: "setLocale demo ''en'' (browser0, ''pt'')
       = (browser0\<lparr>localStorage := client_storage(''locale:tenant-a'' \<mapsto> ''en'', ''locale'' \<mapsto> ''en'')\<rparr>,
          ''en'')"
    using a by blast
  from k q 1 2 3 4 show ?thesis
    by (simp add: prod_eq_iff)
qed

text \<open>
  Claim C7 as stated fails where it lets the read fall back to \<open>locale\<close>: for the
  resolved tenant \<open>tenant-a\<close> with the valid locale \<open>en\<close> saved under \<open>locale\<close> alone, the
  provider does not take \<open>en\<close>. It asks the server although a valid saved locale exists,
  and with no locale in the server's settings it stays at \<open>pt\<close>.
\<close>

theorem locale_mirror_counterexample:
  "locales ''en''
   \<and> localStorage (browser0\<lparr>localStorage := client_storage(''locale'' \<mapsto> ''en'')\<rparr>) ''locale''
       = Some ''en''
   \<and> resolveTenantId demo (client_storage(''locale'' \<mapsto> ''en'')) = JStr ''tenant-a''
   \<and> run demo locales (Inr \<lparr>resp_status = 200, resp_data = JObj [(''settings'', JObj [])]\<rparr>) False
        (browser0\<lparr>localStorage := client_storage(''locale'' \<mapsto> ''en'')\<rparr>, ''pt'')
       = ((browser0\<lparr>localStorage := client_storage(''locale'' \<mapsto> ''en'')\<rparr>, ''pt''),
          [clientsAPI_get demo (client_storage(''locale'' \<mapsto> ''en'')) ''tenant-a''])"
proof -
  have t: "resolveTenantId demo (client_storage(''locale'' \<mapsto> ''en'')) = JStr ''tenant-a''"
    by (simp add: resolveTenantId_demo client_storage_def)
  have n: "saved_locale locales (client_storage(''locale'' \<mapsto> ''en'')) ''locale:tenant-a'' = None"
    by (simp add: saved_locale_def client_storage_def)
  have "run demo locales (Inr \<lparr>resp_status = 200, resp_data = JObj [(''settings'', JObj [])]\<rparr>) False
        (browser0\<lparr>localStorage := client_storage(''locale'' \<mapsto> ''en'')\<rparr>, ''pt'')
       = ((browser0\<lparr>localStorage := client_storage(''locale'' \<mapsto> ''en'')\<rparr>, ''pt''),
          [clientsAPI_get demo (client_storage(''locale'' \<mapsto> ''en'')) ''tenant-a''])"
    by (simp add: run_def Let_def t n savedKey_def response_interceptor_def chain_def)
  with t show ?thesis by (simp add: locales_def)
qed


section \<open>The live portal\<close>

lemma PortalPage_poll_interval:
  "SetInterval i r \<in> set (PortalPage_poll api token p) \<Longrightarrow> i = 10000"
  by (auto simp: PortalPage_poll_def split: if_splits)

lemma PortalPage_timers_interval:
  "SetInterval i r \<in> set (PortalPage_timers api token p) \<Longrightarrow> i = 3000 \<or> i = 10000"
  by (auto simp: PortalPage_timers_def ConversationView_poll_def dest: PortalPage_poll_interval
           split: screen.splits)

text \<open>
  Claim C1. For every token the page first sends \<open>GET /api/live/token\<close>. When the answer
  has type \<open>portal\<close> the page becomes a portal, loads the list and shows it, and its one
  timer polls the list endpoint every 10000 ms. When the answer is not of type \<open>portal\<close>
  and carries messages, the page shows that conversation, and its one timer polls the
  detail endpoint of that conversation every 3000 ms. In every state of the page each
  timer's interval lies between 3000 and 10000 ms.
\<close>

theorem live_portal_polling:
  "(\<exists>rest. snd (detect api token answer rows PortalPage_init) = Request (detect_request api token) # rest)
   \<and> req_method (detect_request api token) = ''GET''
   \<and> req_url (detect_request api token) = api @ ''/api/live/'' @ token
   \<and> (\<forall>d cs. portalType (fst (detect api token (Inr (JStr ''portal'', d)) (Inr cs) PortalPage_init)) = Some Portal
        \<and> snd (detect api token (Inr (JStr ''portal'', d)) (Inr cs) PortalPage_init)
            = [Request (detect_request api token), Request (list_request api token)]
        \<and> PortalPage_render (fst (detect api token (Inr (JStr ''portal'', d)) (Inr cs) PortalPage_init))
            = ConversationList cs
        \<and> PortalPage_timers api token (fst (detect api token (Inr (JStr ''portal'', d)) (Inr cs) PortalPage_init))
            = [SetInterval 10000 (list_request api token)])
   \<and> (\<forall>ty d ms. ty \<noteq> JStr ''portal'' \<and> messages d = Some ms \<longrightarrow>
        portalType (fst (detect api token (Inr (ty, d)) rows PortalPage_init)) = Some LiveView
        \<and> PortalPage_render (fst (detect api token (Inr (ty, d)) rows PortalPage_init))
            = ConversationView d (Some LiveView)
        \<and> PortalPage_timers api token (fst (detect api token (Inr (ty, d)) rows PortalPage_init))
            = [SetInterval 3000 (detail_request api token (conversation_id d))])
   \<and> req_url (list_request api token) = api @ ''/api/live/'' @ token @ ''/conversations?limit=100''
   \<and> req_url (detail_request api token cid) = api @ ''/api/live/'' @ token @ ''/conversations/'' @ cid
   \<and> (\<forall>p i r. SetInterval i r \<in> set (PortalPage_timers api token p) \<longrightarrow> 3000 \<le> i \<and> i \<le> 10000)"
proof -
  have 1: "\<exists>rest. snd (detect api token answer rows PortalPage_init) = Request (detect_request api token) # rest"
    by (auto simp: detect_def split: sum.splits prod.splits)
  have 2: "req_method (detect_request api token) = ''GET''
     \<and> req_url (detect_request api token) = api @ ''/api/live/'' @ token"
    by (simp add: detect_request_def portalFetch_request_def)
  have 3: "portalType (fst (detect api token (Inr (JStr ''portal'', d)) (Inr cs) PortalPage_init)) = Some Portal
        \<and> snd (detect api token (Inr (JStr ''portal'', d)) (Inr cs) PortalPage_init)
            = [Request (detect_request api token), Request (list_request api token)]
        \<and> PortalPage_render (fst (detect api token (Inr (JStr ''portal'', d)) (Inr cs) PortalPage_init))
            = ConversationList cs
        \<and> PortalPage_timers api token (fst (detect api token (Inr (JStr ''portal'', d)) (Inr cs) PortalPage_init))
            = [SetInterval 10000 (list_request api token)]" for d cs
    by (simp add: detect_def loadConversations_def PortalPage_init_def PortalPage_render_def
          PortalPage_timers_def PortalPage_poll_def filtered_def)
  have 4: "portalType (fst (detect api token (Inr (ty, d)) rows PortalPage_init)) = Some LiveView
        \<and> PortalPage_render (fst (detect api token (Inr (ty, d)) rows PortalPage_init))
            = ConversationView d (Some LiveView)
        \<and> PortalPage_timers api token (fst (detect api token (Inr (ty, d)) rows PortalPage_init))
            = [SetInterval 3000 (detail_request api token (conversation_id d))]"
    if "ty \<noteq> JStr ''portal''" "messages d = Some ms" for ty d ms
    using that
    by (simp add: detect_def PortalPage_init_def PortalPage_render_def
          PortalPage_timers_def PortalPage_poll_def ConversationView_poll_def ConversationView_init_def)
  have 5: "req_url (list_request api token) = api @ ''/api/live/'' @ token @ ''/conversations?limit=100''
     \<and> req_url (detail_request api token cid) = api @ ''/api/live/'' @ token @ ''/conversations/'' @ cid"
    by (simp add: list_request_def detail_request_def portalFetch_request_def)
  have 6: "3000 \<le> i \<and> i \<le> 10000" if "SetInterval i r \<in> set (PortalPage_timers api token p)" for p i r
    using PortalPage_timers_interval [OF that] by auto
  from 1 2 3 4 5 6 show ?thesis by blast
qed

theorem live_portal_polling_witness:
  "PortalPage_timers ''http://localhost:8000'' ''tok123''
      (fst (detect ''http://localhost:8000'' ''tok123'' (Inr (Undefined, conversation0)) (Inl ''unused'')
              PortalPage_init))
     = [SetInterval 3000 (detail_request ''http://localhost:8000'' ''tok123'' ''5511999990000'')]
   \<and> PortalPage_render
      (fst (detect ''http://localhost:8000'' ''tok123'' (Inr (Undefined, conversation0)) (Inl ''unused'')
              PortalPage_init))
     = ConversationView conversation0 (Some LiveView)
   \<and> PortalPage_timers ''http://localhost:8000'' ''tok123''
      (fst (detect ''http://localhost:8000'' ''tok123'' (Inr (JStr ''portal'', conversation0))
              (Inr [conversation0]) PortalPage_init))
     = [SetInterval 10000 (list_request ''http://localhost:8000'' ''tok123'')]
   \<and> req_url (list_request ''http://localhost:8000'' ''tok123'')
     = ''http://localhost:8000/api/live/tok123/conversations?limit=100''"
proof -
  note t = live_portal_polling [of "''http://localhost:8000''" "''tok123''" "Inl ''x''" "Inl ''unused''"
      "''5511999990000''"]
  have m: "Undefined \<noteq> JStr ''portal'' \<and> messages conversation0
      = Some [\<lparr>pm_id = ''m1'', pm_direction = ''in'', pm_message_type = ''text'',
       pm_text = Some ''oi'', pm_created_at = ''2026-01-01T10:00:00Z''\<rparr>]"
    by (simp add: conversation0_def)
  have c: "conversation_id conversation0 = ''5511999990000''"
    by (simp add: conversation0_def)
  from t m have "PortalPage_timers ''http://localhost:8000'' ''tok123''
      (fst (detect ''http://localhost:8000'' ''tok123'' (Inr (Undefined, conversation0)) (Inl ''unused'')
              PortalPage_init))
     = [SetInterval 3000 (detail_request ''http://localhost:8000'' ''tok123'' (conversation_id conversation0))]
   \<and> PortalPage_render
      (fst (detect ''http://localhost:8000'' ''tok123'' (Inr (Undefined, conversation0)) (Inl ''unused'')
              PortalPage_init))
     = ConversationView conversation0 (Some LiveView)"
    by blast
  moreover from t have "PortalPage_timers ''http://localhost:8000'' ''tok123''
      (fst (detect ''http://localhost:8000'' ''tok123'' (Inr (JStr ''portal'', conversation0))
              (Inr [conversation0]) PortalPage_init))
     = [SetInterval 10000 (list_request ''http://localhost:8000'' ''tok123'')]"
    by blast
  moreover from t have "req_url (list_request ''http://localhost:8000'' ''tok123'')
     = ''http://localhost:8000/api/live/tok123/conversations?limit=100''"
    by simp
  ultimately show ?thesis by (simp add: c)
qed

lemma portalFetch_headers:
  "req_headers (portalFetch_request api u None) = [''Content-Type'' \<mapsto> ''application/json'']"
  "init_headers opt = Map.empty \<Longrightarrow>
   req_headers (portalFetch_request api u (Some opt)) = [''Content-Type'' \<mapsto> ''application/json'']"
  by (simp_all add: portalFetch_request_def)

text \<open>
  Claim C2. No request of the portal page carries an \<open>Authorization\<close> header: its only
  header is \<open>Content-Type\<close>, it has no query parameters of its own, and the token stands in
  the path \<open>/api/live/token...\<close>. The mode of the conversation view follows from the type
  of the token alone: the reply box, the status button and the follow-up button are
  rendered exactly under a \<open>portal\<close> token (the follow-up scheduler when it is opened
  there), and the read-only footer exactly under a \<open>live_view\<close> token.
\<close>

theorem portal_unauthenticated:
  "(\<forall>r \<in> set (portal_requests api token cid txt newStatus date).
      req_headers r = [''Content-Type'' \<mapsto> ''application/json'']
      \<and> req_headers r ''Authorization'' = None
      \<and> req_params r = []
      \<and> (\<exists>rest. req_url r = api @ ''/api/live/'' @ token @ rest))
   \<and> canAct pt = (pt = Portal)
   \<and> reply_box (ConversationView_render pt onBack v) = (pt = Portal)
   \<and> (status_button (ConversationView_render pt onBack v) \<noteq> None) = (pt = Portal)
   \<and> followup_button (ConversationView_render pt onBack v) = (pt = Portal)
   \<and> followup_scheduler (ConversationView_render pt onBack v) = (showFollowup v \<and> pt = Portal)
   \<and> readonly_footer (ConversationView_render pt onBack v) = (pt = LiveView)"
proof -
  have "req_headers r = [''Content-Type'' \<mapsto> ''application/json'']
      \<and> req_headers r ''Authorization'' = None
      \<and> req_params r = []
      \<and> (\<exists>rest. req_url r = api @ ''/api/live/'' @ token @ rest)"
    if "r \<in> set (portal_requests api token cid txt newStatus date)" for r
    using that
    by (auto simp: portal_requests_def detect_request_def list_request_def detail_request_def
          send_request_def status_request_def followup_request_def portalFetch_request_def)
  moreover have "canAct pt = (pt = Portal)
   \<and> reply_box (ConversationView_render pt onBack v) = (pt = Portal)
   \<and> (status_button (ConversationView_render pt onBack v) \<noteq> None) = (pt = Portal)
   \<and> followup_button (ConversationView_render pt onBack v) = (pt = Portal)
   \<and> followup_scheduler (ConversationView_render pt onBack v) = (showFollowup v \<and> pt = Portal)
   \<and> readonly_footer (ConversationView_render pt onBack v) = (pt = LiveView)"
    by (cases pt) (simp_all add: ConversationView_render_def canAct_def)
  ultimately show ?thesis by blast
qed

theorem portal_unauthenticated_witness:
  "req_headers (send_request ''http://localhost:8000'' ''tok123'' ''5511999990000'' ''ola'')
      ''Authorization'' = None
   \<and> req_headers (status_request ''http://localhost:8000'' ''tok123'' ''5511999990000'' ''handoff'')
      = [''Content-Type'' \<mapsto> ''application/json'']
   \<and> reply_box (ConversationView_render LiveView False view0) = False
   \<and> readonly_footer (ConversationView_render LiveView False view0) = True
   \<and> reply_box (ConversationView_render Portal True view0) = True"
proof -
  note t = portal_unauthenticated [of "''http://localhost:8000''" "''tok123''" "''5511999990000''" "''ola''"
      "''handoff''" "[]"]
  have 1: "send_request ''http://localhost:8000'' ''tok123'' ''5511999990000'' ''ola''
      \<in> set (portal_requests ''http://localhost:8000'' ''tok123'' ''5511999990000'' ''ola'' ''handoff'' [])"
    "status_request ''http://localhost:8000'' ''tok123'' ''5511999990000'' ''handoff''
      \<in> set (portal_requests ''http://localhost:8000'' ''tok123'' ''5511999990000'' ''ola'' ''handoff'' [])"
    by (simp_all add: portal_requests_def)
  from t [of LiveView False view0] 1
  have 2: "req_headers (send_request ''http://localhost:8000'' ''tok123'' ''5511999990000'' ''ola'')
      ''Authorization'' = None
   \<and> req_headers (status_request ''http://localhost:8000'' ''tok123'' ''5511999990000'' ''handoff'')
      = [''Content-Type'' \<mapsto> ''application/json'']"
    by blast
  from t [of LiveView False view0]
  have 3: "reply_box (ConversationView_render LiveView False view0) = False
   \<and> readonly_footer (ConversationView_render LiveView False view0) = True"
    by simp
  from t [of Portal True view0]
  have 4: "reply_box (ConversationView_render Portal True view0) = True"
    by simp
  from 2 3 4 show ?thesis by blast
qed

section \<open>Sending a reply\<close>

lemma trim_ola: "trim '' ola '' = ''ola''"
  by (simp add: trim_def is_ws_def)

text \<open>
  Claim C9. In the portal's conversation view and in the staff viewer alike, the send
  button is disabled exactly when the trimmed input is empty or a send is in flight, and
  then the handler sends nothing and changes nothing. Otherwise it posts the trimmed
  text; when the post fails the state is the one before with only the error message
  set, and when it succeeds the input is cleared and the conversation is fetched again.
\<close>

theorem reply_guard:
  "send_disabled (ConversationView_render pt onBack v) = (trim (replyText v) = [] \<or> sending v)
   \<and> ((trim (replyText v) = [] \<or> sending v) \<longrightarrow> handleSend api token posted fetched v = (v, []))
   \<and> (\<not> (trim (replyText v) = [] \<or> sending v) \<longrightarrow>
        (\<forall>msg. posted = Inl msg \<longrightarrow>
           handleSend api token posted fetched v
             = (v\<lparr>sendError := Some msg\<rparr>,
                [Request (send_request api token (conversation_id (conv v)) (trim (replyText v)))]))
        \<and> (\<forall>ok. posted = Inr ok \<longrightarrow>
           replyText (fst (handleSend api token posted fetched v)) = []
           \<and> \<not> sending (fst (handleSend api token posted fetched v))
           \<and> snd (handleSend api token posted fetched v)
               = [Request (send_request api token (conversation_id (conv v)) (trim (replyText v))),
                  Request (detail_request api token (conversation_id (conv v)))]
           \<and> (\<forall>d. fetched = Inr d \<longrightarrow> conv (fst (handleSend api token posted fetched v)) = d
                   \<and> sendError (fst (handleSend api token posted fetched v)) = None)))
   \<and> (\<forall>c. ConversationViewerPage_render (pg, h) = Viewer c \<longrightarrow>
        vc_send_disabled c = (trim (pg_replyText pg) = [] \<or> hk_sending h))
   \<and> ((trim (pg_replyText pg) = [] \<or> hk_sending h) \<longrightarrow>
        viewer_handleSend env st projectId conversationId sent got (pg, h) = ((pg, h), []))
   \<and> (\<not> (trim (pg_replyText pg) = [] \<or> hk_sending h) \<longrightarrow>
        (\<forall>err. sent = Inl err \<longrightarrow>
           viewer_handleSend env st projectId conversationId sent got (pg, h)
             = ((pg\<lparr>pg_sendError := Some (thrown_message env err ''Erro ao enviar mensagem'')\<rparr>, h),
                [Request (sendMessage_request env st projectId conversationId (trim (pg_replyText pg)))]))
        \<and> (\<forall>resp. sent = Inr resp \<longrightarrow>
           fst (viewer_handleSend env st projectId conversationId sent got (pg, h))
             = (pg\<lparr>pg_sendError := None, pg_replyText := []\<rparr>, fetchConversation got h)
           \<and> snd (viewer_handleSend env st projectId conversationId sent got (pg, h))
               = [Request (sendMessage_request env st projectId conversationId (trim (pg_replyText pg))),
                  Request (fetchConversation_request env st projectId conversationId)]))"
proof -
  have c1: "send_disabled (ConversationView_render pt onBack v) = (trim (replyText v) = [] \<or> sending v)"
    by (simp add: ConversationView_render_def)
  have c2: "(trim (replyText v) = [] \<or> sending v) \<longrightarrow> handleSend api token posted fetched v = (v, [])"
    by (simp add: handleSend_def)
  have c3: "\<not> (trim (replyText v) = [] \<or> sending v) \<longrightarrow>
        (\<forall>msg. posted = Inl msg \<longrightarrow>
           handleSend api token posted fetched v
             = (v\<lparr>sendError := Some msg\<rparr>,
                [Request (send_request api token (conversation_id (conv v)) (trim (replyText v)))]))
        \<and> (\<forall>ok. posted = Inr ok \<longrightarrow>
           replyText (fst (handleSend api token posted fetched v)) = []
           \<and> \<not> sending (fst (handleSend api token posted fetched v))
           \<and> snd (handleSend api token posted fetched v)
               = [Request (send_request api token (conversation_id (conv v)) (trim (replyText v))),
                  Request (detail_request api token (conversation_id (conv v)))]
           \<and> (\<forall>d. fetched = Inr d \<longrightarrow> conv (fst (handleSend api token posted fetched v)) = d
                   \<and> sendError (fst (handleSend api token posted fetched v)) = None))"
    by (cases posted; cases fetched) (simp_all add: handleSend_def Let_def)
  have c4: "\<forall>c. ConversationViewerPage_render (pg, h) = Viewer c \<longrightarrow>
        vc_send_disabled c = (trim (pg_replyText pg) = [] \<or> hk_sending h)"
    by (auto simp: ConversationViewerPage_render_def Let_def split: if_splits option.splits)
  have c5: "(trim (pg_replyText pg) = [] \<or> hk_sending h) \<longrightarrow>
        viewer_handleSend env st projectId conversationId sent got (pg, h) = ((pg, h), [])"
    by (simp add: viewer_handleSend_def)
  have c6: "\<not> (trim (pg_replyText pg) = [] \<or> hk_sending h) \<longrightarrow>
        (\<forall>err. sent = Inl err \<longrightarrow>
           viewer_handleSend env st projectId conversationId sent got (pg, h)
             = ((pg\<lparr>pg_sendError := Some (thrown_message env err ''Erro ao enviar mensagem'')\<rparr>, h),
                [Request (sendMessage_request env st projectId conversationId (trim (pg_replyText pg)))]))
        \<and> (\<forall>resp. sent = Inr resp \<longrightarrow>
           fst (viewer_handleSend env st projectId conversationId sent got (pg, h))
             = (pg\<lparr>pg_sendError := None, pg_replyText := []\<rparr>, fetchConversation got h)
           \<and> snd (viewer_handleSend env st projectId conversationId sent got (pg, h))
               = [Request (sendMessage_request env st projectId conversationId (trim (pg_replyText pg))),
                  Request (fetchConversation_request env st projectId conversationId)])"
    by (cases sent; cases got)
      (simp_all add: viewer_handleSend_def sendMessage_def Let_def fetchConversation_def)
  show ?thesis
    apply (rule conjI, rule c1)
    apply (rule conjI, rule c2)
    apply (rule conjI, rule c3)
    apply (rule conjI, rule c4)
    apply (rule conjI, rule c5)
    apply (rule c6)
    done
qed

theorem reply_guard_witness:
  "handleSend ''http://localhost:8000'' ''tok123'' (Inl ''Erro 500'') (Inl ''unused'') view0
     = (view0\<lparr>sendError := Some ''Erro 500''\<rparr>,
        [Request (send_request ''http://localhost:8000'' ''tok123'' ''5511999990000'' ''ola'')])
   \<and> replyText (fst (handleSend ''http://localhost:8000'' ''tok123'' (Inr Null) (Inr conversation0) view0)) = []
   \<and> handleSend ''http://localhost:8000'' ''tok123'' (Inr Null) (Inr conversation0)
        (view0\<lparr>replyText := ''  ''\<rparr>) = (view0\<lparr>replyText := ''  ''\<rparr>, [])
   \<and> fst (viewer_handleSend demo client_storage ''tenant-a'' ''5511999990000''
        (Inl (rejected 500)) (Inl (rejected 500)) viewer_state0)
     = ((fst viewer_state0)\<lparr>pg_sendError := Some ''Erro ao enviar mensagem''\<rparr>, snd viewer_state0)
   \<and> pg_replyText (fst (fst (viewer_handleSend demo client_storage ''tenant-a'' ''5511999990000''
        (Inr \<lparr>resp_status = 200, resp_data = Null\<rparr>) (Inr conversationData0) viewer_state0))) = []"
proof -
  have v: "trim (replyText view0) = ''ola''" "\<not> sending view0"
    "conversation_id (conv view0) = ''5511999990000''"
    by (simp_all add: view0_def ConversationView_init_def trim_ola conversation0_def)
  have b: "trim (replyText (view0\<lparr>replyText := ''  ''\<rparr>)) = []"
    by (simp add: trim_def is_ws_def)
  have s: "trim (pg_replyText (fst viewer_state0)) = ''ola''" "\<not> hk_sending (snd viewer_state0)"
    by (simp_all add: viewer_state0_def useConversation_init_def trim_ola)
  have e: "thrown_message demo (rejected 500) ''Erro ao enviar mensagem'' = ''Erro ao enviar mensagem''"
    by (simp add: thrown_message_def error_detail_def rejected_def chain_def)
  have 1: "handleSend ''http://localhost:8000'' ''tok123'' (Inl ''Erro 500'') (Inl ''unused'') view0
     = (view0\<lparr>sendError := Some ''Erro 500''\<rparr>,
        [Request (send_request ''http://localhost:8000'' ''tok123'' ''5511999990000'' ''ola'')])"
    using reply_guard [where v = view0 and posted = "Inl ''Erro 500''" and fetched = "Inl ''unused''"
        and api = "''http://localhost:8000''" and token = "''tok123''"] v
    by simp
  have 2: "replyText (fst (handleSend ''http://localhost:8000'' ''tok123'' (Inr Null) (Inr conversation0) view0)) = []"
    using reply_guard [where v = view0 and posted = "Inr Null" and fetched = "Inr conversation0"
        and api = "''http://localhost:8000''" and token = "''tok123''"] v
    by simp
  have 3: "handleSend ''http://localhost:8000'' ''tok123'' (Inr Null) (Inr conversation0)
        (view0\<lparr>replyText := ''  ''\<rparr>) = (view0\<lparr>replyText := ''  ''\<rparr>, [])"
    using reply_guard [where v = "view0\<lparr>replyText := ''  ''\<rparr>" and posted = "Inr Null"
        and fetched = "Inr conversation0" and api = "''http://localhost:8000''" and token = "''tok123''"] b
    by simp
  have 4: "fst (viewer_handleSend demo client_storage ''tenant-a'' ''5511999990000''
        (Inl (rejected 500)) (Inl (rejected 500)) viewer_state0)
     = ((fst viewer_state0)\<lparr>pg_sendError := Some ''Erro ao enviar mensagem''\<rparr>, snd viewer_state0)"
    using reply_guard [where pg = "fst viewer_state0" and h = "snd viewer_state0" and env = demo
        and st = client_storage and projectId = "''tenant-a''" and conversationId = "''5511999990000''"
        and sent = "Inl (rejected 500)" and got = "Inl (rejected 500)"] s e
    by simp
  have 5: "pg_replyText (fst (fst (viewer_handleSend demo client_storage ''tenant-a'' ''5511999990000''
        (Inr \<lparr>resp_status = 200, resp_data = Null\<rparr>) (Inr conversationData0) viewer_state0))) = []"
    using reply_guard [where pg = "fst viewer_state0" and h = "snd viewer_state0" and env = demo
        and st = client_storage and projectId = "''tenant-a''" and conversationId = "''5511999990000''"
        and sent = "Inr \<lparr>resp_status = 200, resp_data = Null\<rparr>" and got = "Inr conversationData0"] s
    by simp
  from 1 2 3 4 5 show ?thesis by blast
qed

section \<open>Status transitions and the hand-off toggle\<close>

lemma api_call_fields:
  "req_url (api_call env st m path ps payload) = baseURL env @ path"
  "req_params (api_call env st m path ps payload) = ps"
  "req_method (api_call env st m path ps payload) = m"
  "req_body (api_call env st m path ps payload) = payload"
  by (simp_all add: api_call_def request_interceptor_def split: option.splits)

text \<open>
  Claim C3. The hook's \<open>updateStatus\<close>, the quick status change of the list page and
  the portal's \<open>handleStatusChange\<close> each send one \<open>PATCH\<close> to the \<open>/status\<close> endpoint of
  the conversation, with a body of a \<open>status\<close> string and a \<open>reason\<close> (optional in the
  hook). Each view offers one transition: to \<open>handoff\<close> from every status other than
  \<open>handoff\<close>, and back to \<open>open\<close> from \<open>handoff\<close>; taking the offered transition flips the
  offer. The banner of the pause shows \<open>metadata.human_takeover_until\<close>, when the status
  is \<open>handoff\<close> and that value is present.
\<close>

theorem status_handoff_toggle:
  "req_method (updateStatus_request env st p c s reason) = ''PATCH''
   \<and> req_url (updateStatus_request env st p c s reason)
       = baseURL env @ ''/api/conversations/'' @ p @ ''/'' @ c @ ''/status''
   \<and> req_body (updateStatus_request env st p c s reason)
       = JObj [(''status'', JStr s), (''reason'', case reason of None \<Rightarrow> Undefined | Some r \<Rightarrow> JStr r)]
   \<and> req_method (quick_status_request env st row s) = ''PATCH''
   \<and> req_url (quick_status_request env st row s)
       = baseURL env @ ''/api/conversations/'' @ project_id row @ ''/'' @ conversation_id row @ ''/status''
   \<and> (\<exists>r. req_body (quick_status_request env st row s) = JObj [(''status'', JStr s), (''reason'', JStr r)])
   \<and> req_method (status_request api token cid s) = ''PATCH''
   \<and> req_url (status_request api token cid s)
       = api @ ''/api/live/'' @ token @ ''/conversations/'' @ cid @ ''/status''
   \<and> req_body (status_request api token cid s)
       = JObj [(''status'', JStr s), (''reason'', JStr ''Alterado via portal'')]
   \<and> (\<exists>rest. snd (handleTakeover env st p c patched fetched vs)
         = Request (updateStatus_request env st p c ''handoff'' (Some ''Takeover manual pelo dashboard''))
           # rest)
   \<and> (\<exists>rest. snd (handleReturnToBot env st p c patched fetched vs)
         = Request (updateStatus_request env st p c ''open'' (Some ''Devolvido ao bot pelo dashboard''))
           # rest)
   \<and> snd (handleQuickStatus env st row s patched rows) = [Request (quick_status_request env st row s)]
   \<and> (\<exists>rest. snd (handleStatusChange api token s answered refetched v)
         = Request (status_request api token (conversation_id (conv v)) s) # rest)
   \<and> (\<forall>vc. ConversationViewerPage_render (pg, h) = Viewer vc \<longrightarrow>
        (\<exists>cd. hk_conversation h = Some cd
           \<and> vc_status_button vc = (if cd_status cd \<noteq> ''handoff'' then ''handoff'' else ''open'')
           \<and> vc_handoff_banner vc
               = (if cd_status cd = ''handoff'' \<and> truthy (chain (cd_metadata cd) ''human_takeover_until'')
                  then Some (chain (cd_metadata cd) ''human_takeover_until'') else None)))
   \<and> quick_status_button row = (if status row \<noteq> ''handoff'' then ''handoff'' else ''open'')
   \<and> quick_status_button (row\<lparr>status := quick_status_button row\<rparr>)
       = (if status row \<noteq> ''handoff'' then ''open'' else ''handoff'')
   \<and> status_button (ConversationView_render Portal onBack v)
       = Some (if status (conv v) \<noteq> ''handoff'' then ''handoff'' else ''open'')
   \<and> status_button (ConversationView_render LiveView onBack v) = None
   \<and> handoff_banner (ConversationView_render pt onBack v)
       = (if status (conv v) = ''handoff'' \<and> truthy (chain (metadata (conv v)) ''human_takeover_until'')
          then Some (chain (metadata (conv v)) ''human_takeover_until'') else None)"
proof -
  have c1: "req_method (updateStatus_request env st p c s reason) = ''PATCH''"
    by (simp add: updateStatus_request_def api_patch_def api_call_fields)
  have c2: "req_url (updateStatus_request env st p c s reason)
       = baseURL env @ ''/api/conversations/'' @ p @ ''/'' @ c @ ''/status''"
    by (simp add: updateStatus_request_def api_patch_def api_call_fields)
  have c3: "req_body (updateStatus_request env st p c s reason)
       = JObj [(''status'', JStr s), (''reason'', case reason of None \<Rightarrow> Undefined | Some r \<Rightarrow> JStr r)]"
    by (simp add: updateStatus_request_def api_patch_def api_call_fields)
  have c4: "req_method (quick_status_request env st row s) = ''PATCH''"
    by (simp add: quick_status_request_def api_patch_def api_call_fields)
  have c5: "req_url (quick_status_request env st row s)
       = baseURL env @ ''/api/conversations/'' @ project_id row @ ''/'' @ conversation_id row @ ''/status''"
    by (simp add: quick_status_request_def api_patch_def api_call_fields)
  have c6: "\<exists>r. req_body (quick_status_request env st row s) = JObj [(''status'', JStr s), (''reason'', JStr r)]"
    by (simp add: quick_status_request_def api_patch_def api_call_fields)
  have c7: "req_method (status_request api token cid s) = ''PATCH''"
    by (simp add: status_request_def portalFetch_request_def)
  have c8: "req_url (status_request api token cid s)
       = api @ ''/api/live/'' @ token @ ''/conversations/'' @ cid @ ''/status''"
    by (simp add: status_request_def portalFetch_request_def)
  have c9: "req_body (status_request api token cid s)
       = JObj [(''status'', JStr s), (''reason'', JStr ''Alterado via portal'')]"
    by (simp add: status_request_def portalFetch_request_def)
  have c10: "\<exists>rest. snd (handleTakeover env st p c patched fetched vs)
         = Request (updateStatus_request env st p c ''handoff'' (Some ''Takeover manual pelo dashboard''))
           # rest"
    by (cases patched) (simp_all add: handleTakeover_def viewer_status_handler_def updateStatus_def Let_def)
  have c11: "\<exists>rest. snd (handleReturnToBot env st p c patched fetched vs)
         = Request (updateStatus_request env st p c ''open'' (Some ''Devolvido ao bot pelo dashboard''))
           # rest"
    by (cases patched) (simp_all add: handleReturnToBot_def viewer_status_handler_def updateStatus_def Let_def)
  have c12: "snd (handleQuickStatus env st row s patched rows) = [Request (quick_status_request env st row s)]"
    by (simp add: handleQuickStatus_def)
  have c13: "\<exists>rest. snd (handleStatusChange api token s answered refetched v)
         = Request (status_request api token (conversation_id (conv v)) s) # rest"
    by (cases answered; cases refetched) (simp_all add: handleStatusChange_def Let_def)
  have c14: "\<forall>vc. ConversationViewerPage_render (pg, h) = Viewer vc \<longrightarrow>
        (\<exists>cd. hk_conversation h = Some cd
           \<and> vc_status_button vc = (if cd_status cd \<noteq> ''handoff'' then ''handoff'' else ''open'')
           \<and> vc_handoff_banner vc
               = (if cd_status cd = ''handoff'' \<and> truthy (chain (cd_metadata cd) ''human_takeover_until'')
                  then Some (chain (cd_metadata cd) ''human_takeover_until'') else None))"
    by (auto simp: ConversationViewerPage_render_def Let_def split: if_splits option.splits)
  have c15: "quick_status_button row = (if status row \<noteq> ''handoff'' then ''handoff'' else ''open'')"
    by (simp add: quick_status_button_def)
  have c16: "quick_status_button (row\<lparr>status := quick_status_button row\<rparr>)
       = (if status row \<noteq> ''handoff'' then ''open'' else ''handoff'')"
    by (simp add: quick_status_button_def)
  have c17: "status_button (ConversationView_render Portal onBack v)
       = Some (if status (conv v) \<noteq> ''handoff'' then ''handoff'' else ''open'')"
    by (simp add: ConversationView_render_def canAct_def isHandoff_def)
  have c18: "status_button (ConversationView_render LiveView onBack v) = None"
    by (simp add: ConversationView_render_def canAct_def)
  have c19: "handoff_banner (ConversationView_render pt onBack v)
       = (if status (conv v) = ''handoff'' \<and> truthy (chain (metadata (conv v)) ''human_takeover_until'')
          then Some (chain (metadata (conv v)) ''human_takeover_until'') else None)"
    by (simp add: ConversationView_render_def isHandoff_def takeoverUntil_def)
  show ?thesis
    apply (rule conjI, rule c1)
    apply (rule conjI, rule c2)
    apply (rule conjI, rule c3)
    apply (rule conjI, rule c4)
    apply (rule conjI, rule c5)
    apply (rule conjI, rule c6)
    apply (rule conjI, rule c7)
    apply (rule conjI, rule c8)
    apply (rule conjI, rule c9)
    apply (rule conjI, rule c10)
    apply (rule conjI, rule c11)
    apply (rule conjI, rule c12)
    apply (rule conjI, rule c13)
    apply (rule conjI, rule c14)
    apply (rule conjI, rule c15)
    apply (rule conjI, rule c16)
    apply (rule conjI, rule c17)
    apply (rule conjI, rule c18)
    apply (rule c19)
    done
qed

theorem status_handoff_toggle_witness:
  "ConversationViewerPage_render
      (fst viewer_state0, fetchConversation (Inr conversationData0) (snd viewer_state0))
     = Viewer \<lparr>vc_live_badge = False, vc_status_button = ''open'', vc_status_button_disabled = False,
         vc_handoff_banner = Some (JStr ''2026-01-01T13:00:00Z''), vc_send_disabled = False\<rparr>
   \<and> status_button (ConversationView_render Portal True view0) = Some ''handoff''
   \<and> status_button (ConversationView_render Portal True handoff_view) = Some ''open''
   \<and> handoff_banner (ConversationView_render Portal True handoff_view)
       = Some (JStr ''2026-01-01T13:00:00Z'')
   \<and> req_url (status_request ''http://localhost:8000'' ''tok123'' ''5511999990000'' ''handoff'')
       = ''http://localhost:8000/api/live/tok123/conversations/5511999990000/status''"
proof -
  let ?s = "(fst viewer_state0, fetchConversation (Inr conversationData0) (snd viewer_state0))"
  note t = status_handoff_toggle [where pg = "fst viewer_state0"
      and h = "fetchConversation (Inr conversationData0) (snd viewer_state0)"
      and api = "''http://localhost:8000''" and token = "''tok123''" and cid = "''5511999990000''"
      and s = "''handoff''" and onBack = True]
  have r: "ConversationViewerPage_render ?s
     = Viewer \<lparr>vc_live_badge = False, vc_status_button = ''open'', vc_status_button_disabled = False,
         vc_handoff_banner = Some (JStr ''2026-01-01T13:00:00Z''), vc_send_disabled = False\<rparr>"
    by (simp add: ConversationViewerPage_render_def viewer_state0_def fetchConversation_def
          useConversation_init_def conversationData0_def chain_def trim_ola)
  have 0: "\<exists>cd. hk_conversation (fetchConversation (Inr conversationData0) (snd viewer_state0)) = Some cd
      \<and> vc_status_button \<lparr>vc_live_badge = False, vc_status_button = ''open'',
            vc_status_button_disabled = False,
            vc_handoff_banner = Some (JStr ''2026-01-01T13:00:00Z''), vc_send_disabled = False\<rparr>
          = (if cd_status cd \<noteq> ''handoff'' then ''handoff'' else ''open'')
      \<and> vc_handoff_banner \<lparr>vc_live_badge = False, vc_status_button = ''open'',
            vc_status_button_disabled = False,
            vc_handoff_banner = Some (JStr ''2026-01-01T13:00:00Z''), vc_send_disabled = False\<rparr>
          = (if cd_status cd = ''handoff'' \<and> truthy (chain (cd_metadata cd) ''human_takeover_until'')
             then Some (chain (cd_metadata cd) ''human_takeover_until'') else None)"
    by (rule t [THEN conjunct2, THEN conjunct2, THEN conjunct2, THEN conjunct2, THEN conjunct2,
        THEN conjunct2, THEN conjunct2, THEN conjunct2, THEN conjunct2, THEN conjunct2,
        THEN conjunct2, THEN conjunct2, THEN conjunct2, THEN conjunct1, rule_format, OF r])
  have 1: "status_button (ConversationView_render Portal True view0) = Some ''handoff''"
    using t [where v = view0] by (simp add: view0_def ConversationView_init_def conversation0_def)
  have 2: "status_button (ConversationView_render Portal True handoff_view) = Some ''open''
     \<and> handoff_banner (ConversationView_render Portal True handoff_view)
       = Some (JStr ''2026-01-01T13:00:00Z'')"
    using t [where v = handoff_view and pt = Portal]
    by (simp add: handoff_view_def ConversationView_init_def conversation0_def chain_def)
  have 3: "req_url (status_request ''http://localhost:8000'' ''tok123'' ''5511999990000'' ''handoff'')
       = ''http://localhost:8000/api/live/tok123/conversations/5511999990000/status''"
    using t by simp
  from r 0 1 2 3 show ?thesis by blast
qed

section \<open>Polling\<close>

lemma requests_sent_timer: "requests_sent t [SetInterval i r] = t div i"
  by (simp add: requests_sent_def)

lemma ConversationsPage_effect_requests:
  "ConversationsPage_effect env st = Some effects \<Longrightarrow>
   effects = [] \<or> (\<exists>r. effects = [Request r])"
  by (auto simp: ConversationsPage_effect_def split: option.splits if_splits Option.bind_splits)

text \<open>
  Claim C4, as the code has it. The views reach the server through requests and timers
  only. The hook of the staff viewer polls with a timer of \<open>pollInterval\<close> milliseconds,
  5000 when the options name none; the portal polls its list every 10000 ms and its
  conversation view every 3000 ms; so the number of their requests grows with time. The
  conversation list page registers no timer: its effect sends at most one request,
  however long the page stays open.
\<close>

theorem polling_views:
  "pollInterval \<lparr>opt_enabled = e, opt_pollInterval = None\<rparr> = 5000
   \<and> (enabled options \<and> p \<noteq> [] \<and> c \<noteq> [] \<longrightarrow>
        useConversation_poll env st p c options h
          = (h\<lparr>hk_isPolling := True\<rparr>,
             [SetInterval (pollInterval options) (fetchConversation_request env st p c)])
        \<and> requests_sent t (snd (useConversation_poll env st p c options h))
            = t div pollInterval options)
   \<and> PortalPage_poll api token (pp\<lparr>portalType := Some Portal\<rparr>)
       = [SetInterval 10000 (list_request api token)]
   \<and> requests_sent t (PortalPage_poll api token (pp\<lparr>portalType := Some Portal\<rparr>)) = t div 10000
   \<and> ConversationView_poll api token v
       = [SetInterval 3000 (detail_request api token (conversation_id (conv v)))]
   \<and> requests_sent t (ConversationView_poll api token v) = t div 3000
   \<and> (\<forall>effects x. ConversationsPage_effect env st = Some effects \<and> x \<in> set effects \<longrightarrow>
         (\<exists>r. x = Request r))
   \<and> (\<forall>effects. ConversationsPage_effect env st = Some effects \<longrightarrow> requests_sent t effects \<le> 1)"
proof -
  have c1: "pollInterval \<lparr>opt_enabled = e, opt_pollInterval = None\<rparr> = 5000"
    by (simp add: pollInterval_def)
  have c2: "enabled options \<and> p \<noteq> [] \<and> c \<noteq> [] \<longrightarrow>
        useConversation_poll env st p c options h
          = (h\<lparr>hk_isPolling := True\<rparr>,
             [SetInterval (pollInterval options) (fetchConversation_request env st p c)])
        \<and> requests_sent t (snd (useConversation_poll env st p c options h))
            = t div pollInterval options"
    by (simp add: useConversation_poll_def requests_sent_timer)
  have c3: "PortalPage_poll api token (pp\<lparr>portalType := Some Portal\<rparr>)
       = [SetInterval 10000 (list_request api token)]"
    by (simp add: PortalPage_poll_def)
  have c4: "requests_sent t (PortalPage_poll api token (pp\<lparr>portalType := Some Portal\<rparr>)) = t div 10000"
    by (simp add: PortalPage_poll_def requests_sent_timer)
  have c5: "ConversationView_poll api token v
       = [SetInterval 3000 (detail_request api token (conversation_id (conv v)))]"
    by (simp add: ConversationView_poll_def)
  have c6: "requests_sent t (ConversationView_poll api token v) = t div 3000"
    by (simp add: ConversationView_poll_def requests_sent_timer)
  have c7: "\<forall>effects x. ConversationsPage_effect env st = Some effects \<and> x \<in> set effects \<longrightarrow>
         (\<exists>r. x = Request r)"
    by (auto dest: ConversationsPage_effect_requests)
  have c8: "\<forall>effects. ConversationsPage_effect env st = Some effects \<longrightarrow> requests_sent t effects \<le> 1"
    by (auto dest!: ConversationsPage_effect_requests simp: requests_sent_def)
  show ?thesis
    apply (rule conjI, rule c1)
    apply (rule conjI, rule c2)
    apply (rule conjI, rule c3)
    apply (rule conjI, rule c4)
    apply (rule conjI, rule c5)
    apply (rule conjI, rule c6)
    apply (rule conjI, rule c7)
    apply (rule c8)
    done
qed

theorem polling_views_witness:
  "snd (useConversation_poll demo client_storage ''tenant-a'' ''5511999990000''
      \<lparr>opt_enabled = None, opt_pollInterval = None\<rparr> useConversation_init)
     = [SetInterval 5000 (fetchConversation_request demo client_storage ''tenant-a'' ''5511999990000'')]
   \<and> requests_sent 60000 (snd (useConversation_poll demo client_storage ''tenant-a'' ''5511999990000''
        \<lparr>opt_enabled = None, opt_pollInterval = None\<rparr> useConversation_init)) = 12
   \<and> requests_sent 60000 (ConversationView_poll ''http://localhost:8000'' ''tok123'' view0) = 20
   \<and> requests_sent 60000 [Request (loadConversations_request demo client_storage (JStr ''tenant-a''))] \<le> 1"
proof -
  note t = polling_views [where options = "\<lparr>opt_enabled = None, opt_pollInterval = None\<rparr>"
      and p = "''tenant-a''" and c = "''5511999990000''" and env = demo and st = client_storage
      and t = 60000 and api = "''http://localhost:8000''" and token = "''tok123''" and v = view0
      and e = None and h = useConversation_init]
  have h: "enabled \<lparr>opt_enabled = None, opt_pollInterval = None\<rparr>
      \<and> ''tenant-a'' \<noteq> [] \<and> ''5511999990000'' \<noteq> []"
    by (simp add: enabled_def)
  have e: "ConversationsPage_effect demo client_storage
     = Some [Request (loadConversations_request demo client_storage (JStr ''tenant-a''))]"
    by (simp add: ConversationsPage_effect_def client_storage_def demo_simps tenant_of_user_def
          user_simps)
  from t h have 0: "useConversation_poll demo client_storage ''tenant-a'' ''5511999990000''
      \<lparr>opt_enabled = None, opt_pollInterval = None\<rparr> useConversation_init
     = (useConversation_init\<lparr>hk_isPolling := True\<rparr>,
        [SetInterval (pollInterval \<lparr>opt_enabled = None, opt_pollInterval = None\<rparr>)
          (fetchConversation_request demo client_storage ''tenant-a'' ''5511999990000'')])
   \<and> requests_sent 60000 (snd (useConversation_poll demo client_storage ''tenant-a'' ''5511999990000''
        \<lparr>opt_enabled = None, opt_pollInterval = None\<rparr> useConversation_init))
      = 60000 div pollInterval \<lparr>opt_enabled = None, opt_pollInterval = None\<rparr>"
    by blast
  from t have i: "pollInterval \<lparr>opt_enabled = None, opt_pollInterval = None\<rparr> = 5000"
    by blast
  from 0 have 1: "snd (useConversation_poll demo client_storage ''tenant-a'' ''5511999990000''
      \<lparr>opt_enabled = None, opt_pollInterval = None\<rparr> useConversation_init)
     = [SetInterval 5000 (fetchConversation_request demo client_storage ''tenant-a'' ''5511999990000'')]
   \<and> requests_sent 60000 (snd (useConversation_poll demo client_storage ''tenant-a'' ''5511999990000''
        \<lparr>opt_enabled = None, opt_pollInterval = None\<rparr> useConversation_init)) = 12"
    unfolding i by (simp add: requests_sent_timer)
  from t have "requests_sent 60000 (ConversationView_poll ''http://localhost:8000'' ''tok123'' view0)
      = 60000 div 3000"
    by blast
  then have 2: "requests_sent 60000 (ConversationView_poll ''http://localhost:8000'' ''tok123'' view0) = 20"
    by simp
  from t e have 3:
    "requests_sent 60000 [Request (loadConversations_request demo client_storage (JStr ''tenant-a''))] \<le> 1"
    by blast
  from 1 2 3 show ?thesis by blast
qed

text \<open>
  Claim C4 as stated fails for the conversation list page, which does not refetch: the
  one request of its effect is all it has sent after a minute, and after an hour.
\<close>

theorem polling_views_counterexample:
  "ConversationsPage_effect demo client_storage
     = Some [Request (loadConversations_request demo client_storage (JStr ''tenant-a''))]
   \<and> requests_sent 60000 [Request (loadConversations_request demo client_storage (JStr ''tenant-a''))] = 1
   \<and> requests_sent 3600000 [Request (loadConversations_request demo client_storage (JStr ''tenant-a''))] = 1"
  by (simp add: ConversationsPage_effect_def client_storage_def demo_simps tenant_of_user_def
        user_simps requests_sent_def)

end
